theory Spec2Isabelle
  imports Complex_Main "HOL-Library.Sublist"
begin

section \<open>JavaScript strings and arrays\<close>

text \<open>
  Strings are lists of ASCII characters. The case conversions below are the ASCII part
  of \<^verbatim>\<open>String.prototype.toUpperCase\<close> and \<^verbatim>\<open>toLowerCase\<close>: letters a-z and A-Z are
  mapped, every other character is left alone. The Unicode special cases of the
  JavaScript built-ins are outside this model.
\<close>

definition isLower :: "char \<Rightarrow> bool" where
  "isLower c = (97 \<le> (of_char c :: nat) \<and> (of_char c :: nat) \<le> 122)"

definition isUpper :: "char \<Rightarrow> bool" where
  "isUpper c = (65 \<le> (of_char c :: nat) \<and> (of_char c :: nat) \<le> 90)"

definition isDigit :: "char \<Rightarrow> bool" where
  "isDigit c = (48 \<le> (of_char c :: nat) \<and> (of_char c :: nat) \<le> 57)"

definition isHexDigit :: "char \<Rightarrow> bool" where
  "isHexDigit c = (isDigit c
     \<or> (97 \<le> (of_char c :: nat) \<and> (of_char c :: nat) \<le> 102)
     \<or> (65 \<le> (of_char c :: nat) \<and> (of_char c :: nat) \<le> 70))"

definition isSpace :: "char \<Rightarrow> bool" where
  "isSpace c = ((of_char c :: nat) = 32 \<or> (9 \<le> (of_char c :: nat) \<and> (of_char c :: nat) \<le> 13))"

definition toUpperChar :: "char \<Rightarrow> char" where
  "toUpperChar c = (if isLower c then char_of ((of_char c :: nat) - 32) else c)"

definition toLowerChar :: "char \<Rightarrow> char" where
  "toLowerChar c = (if isUpper c then char_of ((of_char c :: nat) + 32) else c)"

definition js_toUpperCase :: "string \<Rightarrow> string" where
  "js_toUpperCase s = map toUpperChar s"

definition js_toLowerCase :: "string \<Rightarrow> string" where
  "js_toLowerCase s = map toLowerChar s"

text \<open>\<^verbatim>\<open>s.startsWith(p)\<close> and \<^verbatim>\<open>s.includes(t)\<close>.\<close>

definition js_startsWith :: "string \<Rightarrow> string \<Rightarrow> bool" where
  "js_startsWith s p = prefix p s"

definition js_includes :: "string \<Rightarrow> string \<Rightarrow> bool" where
  "js_includes s t = sublist t s"

text \<open>\<^verbatim>\<open>s.split(sep)\<close> for a one-character separator: never the empty array.\<close>

fun js_split :: "char \<Rightarrow> string \<Rightarrow> string list" where
  "js_split sep [] = [[]]"
| "js_split sep (c # cs) =
     (if c = sep then [] # js_split sep cs
      else (case js_split sep cs of
              [] \<Rightarrow> [[c]]
            | w # ws \<Rightarrow> (c # w) # ws))"

definition js_trim :: "string \<Rightarrow> string" where
  "js_trim s = rev (dropWhile isSpace (rev (dropWhile isSpace s)))"


text \<open>
  \<^verbatim>\<open>xs.slice(start, end)\<close>: a negative index counts from the end of the array, and
  both indices are clamped to the array.
\<close>

definition js_slice :: "'a list \<Rightarrow> int \<Rightarrow> int \<Rightarrow> 'a list" where
  "js_slice xs start end =
     (let n = int (length xs);
          k = (if start < 0 then max (n + start) 0 else min start n);
          f = (if end < 0 then max (n + end) 0 else min end n)
      in take (nat (f - k)) (drop (nat k) xs))"



text \<open>
  \<^verbatim>\<open>parseInt(s)\<close> with no radix: leading white space is skipped, a sign is read, a
  prefix 0x or 0X selects base 16, and the longest prefix of digits is the value. No
  digit at all is NaN, here \<open>None\<close>.
\<close>

definition digitVal :: "char \<Rightarrow> nat" where
  "digitVal c = (if isDigit c then (of_char c :: nat) - 48
                 else if isLower c then (of_char c :: nat) - 87
                 else (of_char c :: nat) - 55)"

fun digitsVal :: "nat \<Rightarrow> nat \<Rightarrow> string \<Rightarrow> nat" where
  "digitsVal base acc [] = acc"
| "digitsVal base acc (c # cs) = digitsVal base (acc * base + digitVal c) cs"

definition parseDigits :: "string \<Rightarrow> nat option" where
  "parseDigits s =
     (if js_startsWith s ''0x'' \<or> js_startsWith s ''0X'' then
        (let ds = takeWhile isHexDigit (drop 2 s)
         in if ds = [] then None else Some (digitsVal 16 0 ds))
      else
        (let ds = takeWhile isDigit s
         in if ds = [] then None else Some (digitsVal 10 0 ds)))"

definition js_parseInt :: "string \<Rightarrow> int option" where
  "js_parseInt s =
     (case dropWhile isSpace s of
        [] \<Rightarrow> None
      | c # cs \<Rightarrow>
          if c = CHR ''-'' then map_option (\<lambda>n. - int n) (parseDigits cs)
          else if c = CHR ''+'' then map_option int (parseDigits cs)
          else map_option int (parseDigits (c # cs)))"

text \<open>\<^verbatim>\<open>Math.ceil(a / b)\<close> on integers, with the division over the reals.\<close>

definition math_ceil_div :: "int \<Rightarrow> int \<Rightarrow> int" where
  "math_ceil_div a b = \<lceil>real_of_int a / real_of_int b\<rceil>"

section \<open>JSON values and HTTP responses\<close>

datatype json =
    JNull
  | JBool bool
  | JNum real
  | JStr string
  | JArr "json list"
  | JObj "(string \<times> json) list"

text \<open>\<^verbatim>\<open>delete obj.key\<close> on the fields of an object.\<close>

definition js_delete :: "string \<Rightarrow> (string \<times> json) list \<Rightarrow> (string \<times> json) list" where
  "js_delete k kvs = filter (\<lambda>kv. fst kv \<noteq> k) kvs"

text \<open>Whether some object inside a JSON value, at any depth, has the field \<open>k\<close>.\<close>

fun has_key :: "string \<Rightarrow> json \<Rightarrow> bool" where
  "has_key k (JObj kvs) = list_ex (\<lambda>kv. fst kv = k \<or> has_key k (snd kv)) kvs"
| "has_key k (JArr js) = list_ex (has_key k) js"
| "has_key k _ = False"

text \<open>The field \<open>k\<close> of an object, \<open>JNull\<close> when it has none.\<close>

fun json_field :: "string \<Rightarrow> json \<Rightarrow> json" where
  "json_field k (JObj kvs) = (case map_of kvs k of None \<Rightarrow> JNull | Some v \<Rightarrow> v)"
| "json_field k _ = JNull"

text \<open>\<^verbatim>\<open>res.status(code).json(body)\<close>.\<close>

record response =
  status_code :: nat
  body :: json

definition error_response :: "nat \<Rightarrow> string \<Rightarrow> response" where
  "error_response code msg =
     \<lparr>status_code = code,
      body = JObj [(''status'', JStr ''error''), (''message'', JStr msg)]\<rparr>"

text \<open>
  One entry of \<^verbatim>\<open>errors.array()\<close> of express-validator: the field, the value it had
  and the message of the rule it broke.
\<close>

definition field_error :: "string \<Rightarrow> string \<Rightarrow> string \<Rightarrow> string \<Rightarrow> json" where
  "field_error location path v msg =
     JObj [(''type'', JStr ''field''), (''value'', JStr v), (''msg'', JStr msg),
           (''path'', JStr path), (''location'', JStr location)]"

definition validation_response :: "json list \<Rightarrow> response" where
  "validation_response errors =
     \<lparr>status_code = 400,
      body = JObj [(''status'', JStr ''error''), (''message'', JStr ''Validation errors''),
                   (''errors'', JArr errors)]\<rparr>"

definition message_of :: "response \<Rightarrow> json" where
  "message_of r = json_field ''message'' (body r)"

section \<open>The document store\<close>

text \<open>
  An \<^verbatim>\<open>ObjectId\<close> is kept as its 24 hexadecimal characters, a \<^verbatim>\<open>Date\<close> as its
  milliseconds since the epoch. The two collections are lists in insertion order;
  \<^verbatim>\<open>findOne\<close> is \<^const>\<open>find\<close>, the first document that matches. A failure of the
  database driver itself (the outer \<^verbatim>\<open>catch\<close> of a handler, status 500) has no
  counterpart in a store that is a value.
\<close>

type_synonym object_id = string

definition isMongoId :: "string \<Rightarrow> bool" where
  "isMongoId s = (length s = 24 \<and> list_all isHexDigit s)"

datatype user_role = RoleUser | RoleAdmin

definition role_name :: "user_role \<Rightarrow> string" where
  "role_name r = (case r of RoleUser \<Rightarrow> ''user'' | RoleAdmin \<Rightarrow> ''admin'')"

record passport_info =
  passport_number :: string
  expiryDate :: nat
  countryOfIssue :: string

record user_preferences =
  currency :: "string option"
  language :: "string option"
  notifications :: "bool option"

record user =
  user_id :: object_id
  firstName :: string
  lastName :: string
  email :: string
  password :: string
  phone :: "string option"
  dateOfBirth :: "nat option"
  passport :: "passport_info option"
  preferences :: user_preferences
  isEmailVerified :: bool
  role :: user_role
  createdAt :: nat
  updatedAt :: nat
  user_v :: nat

datatype booking_type = Flight | Hotel | Car | Restaurant

definition type_name :: "booking_type \<Rightarrow> string" where
  "type_name t = (case t of Flight \<Rightarrow> ''flight'' | Hotel \<Rightarrow> ''hotel''
                  | Car \<Rightarrow> ''car'' | Restaurant \<Rightarrow> ''restaurant'')"

datatype booking_status = Pending | Confirmed | Cancelled | Completed

definition status_name :: "booking_status \<Rightarrow> string" where
  "status_name s = (case s of Pending \<Rightarrow> ''pending'' | Confirmed \<Rightarrow> ''confirmed''
                    | Cancelled \<Rightarrow> ''cancelled'' | Completed \<Rightarrow> ''completed'')"

record booking =
  booking_id :: object_id
  b_user :: object_id
  b_type :: booking_type
  bookingReference :: string
  b_status :: booking_status
  totalAmount :: real
  b_currency :: string
  bookingDetails :: json
  b_createdAt :: nat
  b_updatedAt :: nat
  b_v :: nat

record db =
  users :: "user list"
  bookings :: "booking list"

text \<open>\<^verbatim>\<open>updateOne\<close>: the first document that matches is replaced.\<close>

fun replaceOne :: "('a \<Rightarrow> bool) \<Rightarrow> 'a \<Rightarrow> 'a list \<Rightarrow> 'a list" where
  "replaceOne P y [] = []"
| "replaceOne P y (x # xs) = (if P x then y # xs else x # replaceOne P y xs)"

text \<open>\<^verbatim>\<open>deleteOne\<close>: the first document that matches is removed.\<close>

fun deleteOne :: "('a \<Rightarrow> bool) \<Rightarrow> 'a list \<Rightarrow> 'a list" where
  "deleteOne P [] = []"
| "deleteOne P (x # xs) = (if P x then xs else x # deleteOne P xs)"

definition countDocuments :: "('a \<Rightarrow> bool) \<Rightarrow> 'a list \<Rightarrow> nat" where
  "countDocuments P xs = length (filter P xs)"

definition deleteMany :: "('a \<Rightarrow> bool) \<Rightarrow> 'a list \<Rightarrow> 'a list" where
  "deleteMany P xs = filter (\<lambda>x. \<not> P x) xs"

text \<open>
  \<^verbatim>\<open>.sort({ createdAt: -1 })\<close>: newest first. The store leaves the order of equal
  keys open; the model keeps them in collection order.
\<close>

definition sort_desc :: "('a \<Rightarrow> nat) \<Rightarrow> 'a list \<Rightarrow> 'a list" where
  "sort_desc k xs = sort_key (\<lambda>x. - int (k x)) xs"

section \<open>The environment of a request\<close>

text \<open>
  What a handler takes from libraries, the process environment, the clock and the
  random source: the JSON Web Token library, bcrypt, the validators of
  express-validator that are regular expressions of the library, the schema's own
  e-mail pattern (the regular-expression engine), \<^verbatim>\<open>Date.now()\<close>, \<^verbatim>\<open>new Date(s)\<close>,
  \<^verbatim>\<open>Math.random().toString(36)\<close>, the identifier a new document is given, and the
  reading of a decimal number: the pattern of \<^verbatim>\<open>isFloat\<close> and \<^verbatim>\<open>parseFloat\<close>
  (\<open>None\<close> is NaN).
\<close>

record jwt_payload =
  jwt_userId :: object_id
  jwt_email :: string
  jwt_role :: string

record env =
  JWT_SECRET :: "string option"
  JWT_EXPIRE :: "string option"
  jwt_sign :: "jwt_payload \<Rightarrow> string \<Rightarrow> string \<Rightarrow> string"
  jwt_verify :: "string \<Rightarrow> string \<Rightarrow> jwt_payload option"
  bcrypt_genSalt :: string
  bcrypt_hash :: "string \<Rightarrow> string \<Rightarrow> string"
  bcrypt_compare :: "string \<Rightarrow> string \<Rightarrow> bool"
  isEmail :: "string \<Rightarrow> bool"
  normalizeEmail :: "string \<Rightarrow> string"
  isISO8601 :: "string \<Rightarrow> bool"
  schema_email_match :: "string \<Rightarrow> bool"
  date_now :: nat
  date_parse :: "string \<Rightarrow> nat option"
  math_random36 :: string
  new_object_id :: object_id
  float_syntax :: "string \<Rightarrow> bool"
  parseFloat :: "string \<Rightarrow> real option"

section \<open>The User model\<close>

text \<open>
  A document as a query returns it: the stored fields, and whether the password was
  selected (\<^verbatim>\<open>select: false\<close> in the schema, \<^verbatim>\<open>.select('+password')\<close> and
  \<^verbatim>\<open>.select('-password')\<close> in the queries).
\<close>

record user_doc =
  doc :: user
  password_selected :: bool

definition select_default :: "user \<Rightarrow> user_doc" where
  "select_default u = \<lparr>doc = u, password_selected = False\<rparr>"

definition select_minus_password :: "user \<Rightarrow> user_doc" where
  "select_minus_password u = \<lparr>doc = u, password_selected = False\<rparr>"

definition select_plus_password :: "user \<Rightarrow> user_doc" where
  "select_plus_password u = \<lparr>doc = u, password_selected = True\<rparr>"

definition opt_field :: "string \<Rightarrow> ('a \<Rightarrow> json) \<Rightarrow> 'a option \<Rightarrow> (string \<times> json) list" where
  "opt_field k f v = (case v of None \<Rightarrow> [] | Some x \<Rightarrow> [(k, f x)])"

definition passport_json :: "passport_info \<Rightarrow> json" where
  "passport_json p =
     JObj [(''number'', JStr (passport_number p)),
           (''expiryDate'', JNum (real (expiryDate p))),
           (''countryOfIssue'', JStr (countryOfIssue p))]"

definition preferences_json :: "user_preferences \<Rightarrow> json" where
  "preferences_json p =
     JObj (opt_field ''currency'' JStr (currency p)
         @ opt_field ''language'' JStr (language p)
         @ opt_field ''notifications'' JBool (notifications p))"

text \<open>\<^verbatim>\<open>this.toObject()\<close>: every field the document holds.\<close>

definition toObject :: "user_doc \<Rightarrow> (string \<times> json) list" where
  "toObject d =
     (let u = doc d in
      [(''_id'', JStr (user_id u)),
       (''firstName'', JStr (firstName u)),
       (''lastName'', JStr (lastName u)),
       (''email'', JStr (email u))]
      @ (if password_selected d then [(''password'', JStr (password u))] else [])
      @ opt_field ''phone'' JStr (phone u)
      @ opt_field ''dateOfBirth'' (\<lambda>t. JNum (real t)) (dateOfBirth u)
      @ opt_field ''passport'' passport_json (passport u)
      @ [(''preferences'', preferences_json (preferences u)),
         (''isEmailVerified'', JBool (isEmailVerified u)),
         (''role'', JStr (role_name (role u))),
         (''createdAt'', JNum (real (createdAt u))),
         (''updatedAt'', JNum (real (updatedAt u))),
         (''__v'', JNum (real (user_v u)))])"

text \<open>\<^verbatim>\<open>UserSchema.methods.toJSON\<close>.\<close>

definition toJSON :: "user_doc \<Rightarrow> json" where
  "toJSON d = JObj (js_delete ''__v'' (js_delete ''password'' (toObject d)))"

text \<open>\<^verbatim>\<open>UserSchema.methods.comparePassword\<close>.\<close>

definition comparePassword :: "env \<Rightarrow> user_doc \<Rightarrow> string \<Rightarrow> bool" where
  "comparePassword e d enteredPassword = bcrypt_compare e enteredPassword (password (doc d))"

text \<open>
  \<^verbatim>\<open>UserSchema.methods.getSignedJwtToken\<close>: \<open>None\<close> is the throw when the secret
  is not set.
\<close>

definition getSignedJwtToken :: "env \<Rightarrow> user \<Rightarrow> string option" where
  "getSignedJwtToken e u =
     (case JWT_SECRET e of
        None \<Rightarrow> None
      | Some secret \<Rightarrow>
          (if secret = [] then None
           else Some (jwt_sign e
                  \<lparr>jwt_userId = user_id u, jwt_email = email u, jwt_role = role_name (role u)\<rparr>
                  secret
                  (case JWT_EXPIRE e of None \<Rightarrow> ''30d'' | Some x \<Rightarrow> x))))"

text \<open>
  The validators of the schema, run by \<^verbatim>\<open>save\<close> before the hooks and by
  \<^verbatim>\<open>findByIdAndUpdate\<close> with \<^verbatim>\<open>runValidators\<close>.
\<close>

definition currencies :: "string list" where
  "currencies = [''USD'', ''EUR'', ''GBP'', ''JPY'', ''CAD'', ''AUD'']"

definition languages :: "string list" where
  "languages = [''en'', ''es'', ''fr'', ''de'', ''it'', ''pt'', ''zh'', ''ja'']"

definition preferences_valid :: "user_preferences \<Rightarrow> bool" where
  "preferences_valid p =
     ((case currency p of None \<Rightarrow> True | Some c \<Rightarrow> c \<in> set currencies)
      \<and> (case language p of None \<Rightarrow> True | Some l \<Rightarrow> l \<in> set languages))"

definition user_schema_valid :: "env \<Rightarrow> user \<Rightarrow> bool" where
  "user_schema_valid e u =
     (firstName u \<noteq> [] \<and> length (firstName u) \<le> 50
      \<and> lastName u \<noteq> [] \<and> length (lastName u) \<le> 50
      \<and> email u \<noteq> [] \<and> schema_email_match e (email u)
      \<and> password u \<noteq> [] \<and> 6 \<le> length (password u)
      \<and> preferences_valid (preferences u))"

text \<open>
  \<^verbatim>\<open>UserSchema.pre('save')\<close> on a new document: the password is replaced by its
  salted hash.
\<close>

definition user_pre_save :: "env \<Rightarrow> user \<Rightarrow> user" where
  "user_pre_save e u = u\<lparr>password := bcrypt_hash e (password u) (bcrypt_genSalt e)\<rparr>"

text \<open>
  \<^verbatim>\<open>user.save()\<close> of a new document: \<open>None\<close> is the throw of a failed validation
  or of the unique index on the e-mail.
\<close>

definition save_new_user :: "env \<Rightarrow> user \<Rightarrow> db \<Rightarrow> (user \<times> db) option" where
  "save_new_user e u d =
     (if \<not> user_schema_valid e u then None
      else let u' = user_pre_save e u in
        if list_ex (\<lambda>x. email x = email u') (users d) then None
        else Some (u', d\<lparr>users := users d @ [u']\<rparr>))"

definition findById :: "object_id \<Rightarrow> db \<Rightarrow> user option" where
  "findById i d = find (\<lambda>u. user_id u = i) (users d)"

section \<open>The Booking model\<close>




text \<open>\<^verbatim>\<open>.populate('user', 'firstName lastName email')\<close>.\<close>

definition populate_user :: "db \<Rightarrow> object_id \<Rightarrow> json" where
  "populate_user d i =
     (case findById i d of
        None \<Rightarrow> JNull
      | Some u \<Rightarrow> JObj [(''_id'', JStr (user_id u)), (''firstName'', JStr (firstName u)),
                        (''lastName'', JStr (lastName u)), (''email'', JStr (email u))])"

definition booking_json :: "json \<Rightarrow> booking \<Rightarrow> json" where
  "booking_json owner b =
     JObj [(''_id'', JStr (booking_id b)),
           (''user'', owner),
           (''type'', JStr (type_name (b_type b))),
           (''bookingReference'', JStr (bookingReference b)),
           (''status'', JStr (status_name (b_status b))),
           (''totalAmount'', JNum (totalAmount b)),
           (''currency'', JStr (b_currency b)),
           (''bookingDetails'', bookingDetails b),
           (''createdAt'', JNum (real (b_createdAt b))),
           (''updatedAt'', JNum (real (b_updatedAt b))),
           (''__v'', JNum (real (b_v b)))]"

section \<open>The authentication middleware\<close>

record request_headers =
  authorization :: "string option"
  cookie :: "string option"

text \<open>A value that may be \<^verbatim>\<open>undefined\<close>: it is truthy when it is a non-empty string.\<close>

definition truthy :: "string option \<Rightarrow> bool" where
  "truthy v = (case v of None \<Rightarrow> False | Some s \<Rightarrow> s \<noteq> [])"

text \<open>\<^verbatim>\<open>xs[i]\<close>, \<^verbatim>\<open>undefined\<close> out of range.\<close>

definition js_index :: "'a list \<Rightarrow> nat \<Rightarrow> 'a option" where
  "js_index xs i = (if i < length xs then Some (xs ! i) else None)"

text \<open>
  The token of the \<^verbatim>\<open>Authorization\<close> header: the second of the pieces between
  single spaces, when the header starts with \<^verbatim>\<open>Bearer\<close>.
\<close>

definition header_token :: "request_headers \<Rightarrow> string option" where
  "header_token h =
     (case authorization h of
        None \<Rightarrow> None
      | Some a \<Rightarrow> if a \<noteq> [] \<and> js_startsWith a ''Bearer''
                  then js_index (js_split CHR '' '' a) 1 else None)"

text \<open>
  The \<^verbatim>\<open>reduce\<close> over the pieces of the \<^verbatim>\<open>Cookie\<close> header: each piece is
  trimmed and split at the equals signs, and the first part is bound to the second.
\<close>

definition cookie_step :: "string \<Rightarrow> (string \<rightharpoonup> string) \<Rightarrow> (string \<rightharpoonup> string)" where
  "cookie_step c acc =
     (let parts = js_split CHR ''='' (js_trim c)
      in case parts of
           [] \<Rightarrow> acc
         | key # rest \<Rightarrow> acc(key := js_index parts 1))"

definition parse_cookies :: "string \<Rightarrow> (string \<rightharpoonup> string)" where
  "parse_cookies s = fold cookie_step (js_split CHR '';'' s) Map.empty"

definition authenticate_token :: "request_headers \<Rightarrow> string option" where
  "authenticate_token h =
     (let token = header_token h
      in if \<not> truthy token \<and> truthy (cookie h)
         then (case cookie h of None \<Rightarrow> token | Some c \<Rightarrow> parse_cookies c ''token'')
         else token)"

text \<open>
  \<^verbatim>\<open>jwt.verify(token, process.env.JWT_SECRET!)\<close>: \<open>None\<close> is the throw, of the
  library or for a secret that is not set.
\<close>

definition verify_token :: "env \<Rightarrow> string \<Rightarrow> jwt_payload option" where
  "verify_token e token =
     (case JWT_SECRET e of None \<Rightarrow> None | Some secret \<Rightarrow> jwt_verify e token secret)"

text \<open>
  What a middleware does with a request: it answers, or it calls \<^verbatim>\<open>next()\<close> with
  what it attached to the request.
\<close>

datatype 'a middleware_result = Respond response | Next 'a

text \<open>
  \<^verbatim>\<open>authenticate\<close>. An identifier in the token that is no \<^verbatim>\<open>ObjectId\<close> makes
  \<^verbatim>\<open>findById\<close> throw inside the inner \<^verbatim>\<open>try\<close>, which answers as for a bad token.
\<close>

definition authenticate :: "env \<Rightarrow> db \<Rightarrow> request_headers \<Rightarrow> user_doc middleware_result" where
  "authenticate e d h =
     (let token = authenticate_token h
      in case token of
           None \<Rightarrow> Respond (error_response 401 ''Access denied. No token provided.'')
         | Some t \<Rightarrow>
             if t = [] then Respond (error_response 401 ''Access denied. No token provided.'')
             else (case verify_token e t of
                     None \<Rightarrow> Respond (error_response 401 ''Invalid token.'')
                   | Some decoded \<Rightarrow>
                       if \<not> isMongoId (jwt_userId decoded)
                       then Respond (error_response 401 ''Invalid token.'')
                       else (case findById (jwt_userId decoded) d of
                               None \<Rightarrow> Respond (error_response 401
                                          ''Token is valid but user no longer exists.'')
                             | Some u \<Rightarrow> Next (select_minus_password u))))"

text \<open>\<^verbatim>\<open>authorize(...roles)\<close>, after \<^verbatim>\<open>authenticate\<close>.\<close>

definition authorize :: "string list \<Rightarrow> user_doc option \<Rightarrow> unit middleware_result" where
  "authorize roles req_user =
     (case req_user of
        None \<Rightarrow> Respond (error_response 401 ''Access denied. Please log in.'')
      | Some u \<Rightarrow>
          if role_name (role (doc u)) \<notin> set roles
          then Respond (error_response 403 ''Access denied. Insufficient permissions.'')
          else Next ())"

text \<open>
  \<^verbatim>\<open>optionalAuth\<close>: it always calls \<^verbatim>\<open>next()\<close>; the result is \<^verbatim>\<open>req.user\<close>. It
  reads the \<^verbatim>\<open>Authorization\<close> header only.
\<close>

definition optionalAuth :: "env \<Rightarrow> db \<Rightarrow> request_headers \<Rightarrow> user_doc option" where
  "optionalAuth e d h =
     (let token = header_token h
      in case token of
           None \<Rightarrow> None
         | Some t \<Rightarrow>
             if t = [] then None
             else (case verify_token e t of
                     None \<Rightarrow> None
                   | Some decoded \<Rightarrow>
                       if \<not> isMongoId (jwt_userId decoded) then None
                       else (case findById (jwt_userId decoded) d of
                               None \<Rightarrow> None
                             | Some u \<Rightarrow> Some (select_minus_password u))))"

section \<open>Routes of /api/auth\<close>

text \<open>
  The body of a request as the fields a handler reads. A required field that is
  absent reads as the empty string: every rule on such a field rejects both.
\<close>

record register_body =
  reg_firstName :: string
  reg_lastName :: string
  reg_email :: string
  reg_password :: string
  reg_phone :: "string option"
  reg_dateOfBirth :: "string option"

text \<open>
  \<^verbatim>\<open>/^(?=.*[a-z])(?=.*[A-Z])(?=.*\d)/\<close>: the dot stops at a line terminator, so the
  three characters are looked for on the first line.
\<close>

definition isLineTerminator :: "char \<Rightarrow> bool" where
  "isLineTerminator c = ((of_char c :: nat) = 10 \<or> (of_char c :: nat) = 13)"

definition password_pattern :: "string \<Rightarrow> bool" where
  "password_pattern p =
     (let l = takeWhile (\<lambda>c. \<not> isLineTerminator c) p
      in list_ex isLower l \<and> list_ex isUpper l \<and> list_ex isDigit l)"

definition check :: "bool \<Rightarrow> json \<Rightarrow> json list" where
  "check ok err = (if ok then [] else [err])"

definition registerValidation :: "env \<Rightarrow> register_body \<Rightarrow> json list" where
  "registerValidation e b =
     check (reg_firstName b \<noteq> [])
       (field_error ''body'' ''firstName'' (reg_firstName b) ''First name is required'')
     @ check (reg_lastName b \<noteq> [])
       (field_error ''body'' ''lastName'' (reg_lastName b) ''Last name is required'')
     @ check (isEmail e (reg_email b))
       (field_error ''body'' ''email'' (reg_email b) ''Valid email is required'')
     @ check (6 \<le> length (reg_password b))
       (field_error ''body'' ''password'' (reg_password b)
          ''Password must be at least 6 characters long'')
     @ check (password_pattern (reg_password b))
       (field_error ''body'' ''password'' (reg_password b)
          ''Password must contain at least one uppercase letter, one lowercase letter, and one number'')"

text \<open>
  \<^verbatim>\<open>new User({...})\<close>: the setters of the schema (\<^verbatim>\<open>trim\<close>, \<^verbatim>\<open>lowercase\<close>) and
  its defaults.
\<close>

definition new_User ::
  "env \<Rightarrow> string \<Rightarrow> string \<Rightarrow> string \<Rightarrow> string \<Rightarrow> string option \<Rightarrow> nat option \<Rightarrow> user" where
  "new_User e fname lname em pw ph dob =
     \<lparr>user_id = new_object_id e,
      firstName = js_trim fname,
      lastName = js_trim lname,
      email = js_trim (js_toLowerCase em),
      password = pw,
      phone = map_option js_trim ph,
      dateOfBirth = dob,
      passport = None,
      preferences = \<lparr>currency = Some ''USD'', language = Some ''en'', notifications = Some True\<rparr>,
      isEmailVerified = False,
      role = RoleUser,
      createdAt = date_now e,
      updatedAt = date_now e,
      user_v = 0\<rparr>"

text \<open>
  \<^verbatim>\<open>dateOfBirth ? new Date(dateOfBirth) : undefined\<close>: the outer \<open>None\<close> is an
  invalid date, which the schema refuses to cast.
\<close>

definition cast_date :: "env \<Rightarrow> string option \<Rightarrow> nat option option" where
  "cast_date e s =
     (if truthy s
      then (case s of None \<Rightarrow> Some None
            | Some x \<Rightarrow> (case date_parse e x of None \<Rightarrow> None | Some t \<Rightarrow> Some (Some t)))
      else Some None)"

text \<open>\<^verbatim>\<open>POST /api/auth/register\<close>.\<close>

definition register :: "env \<Rightarrow> register_body \<Rightarrow> db \<Rightarrow> response \<times> db" where
  "register e b d =
     (let errors = registerValidation e b in
      if errors \<noteq> [] then (validation_response errors, d)
      else
        let firstName' = js_trim (reg_firstName b);
            lastName' = js_trim (reg_lastName b);
            email' = normalizeEmail e (reg_email b);
            password' = reg_password b
        in case find (\<lambda>u. email u = email') (users d) of
             Some existingUser \<Rightarrow>
               (error_response 400 ''User with this email already exists'', d)
           | None \<Rightarrow>
               (case cast_date e (reg_dateOfBirth b) of
                  None \<Rightarrow> (error_response 500 ''Error creating user account'', d)
                | Some dob \<Rightarrow>
                    (case save_new_user e
                            (new_User e firstName' lastName' email' password' (reg_phone b) dob) d of
                       None \<Rightarrow> (error_response 500 ''Error creating user account'', d)
                     | Some (u, d') \<Rightarrow>
                         (case getSignedJwtToken e u of
                            None \<Rightarrow> (error_response 500 ''Error creating user account'', d')
                          | Some token \<Rightarrow>
                              (\<lparr>status_code = 201,
                                body = JObj [(''status'', JStr ''success''),
                                  (''message'', JStr ''User registered successfully''),
                                  (''data'', JObj [
                                     (''user'', toJSON \<lparr>doc = u, password_selected = True\<rparr>),
                                     (''token'', JStr token)])]\<rparr>, d')))))"

record login_body =
  login_email :: string
  login_password :: string

definition loginValidation :: "env \<Rightarrow> login_body \<Rightarrow> json list" where
  "loginValidation e b =
     check (isEmail e (login_email b))
       (field_error ''body'' ''email'' (login_email b) ''Valid email is required'')
     @ check (login_password b \<noteq> [])
       (field_error ''body'' ''password'' (login_password b) ''Password is required'')"

text \<open>\<^verbatim>\<open>POST /api/auth/login\<close>. It reads the store and never writes it.\<close>

definition login :: "env \<Rightarrow> login_body \<Rightarrow> db \<Rightarrow> response" where
  "login e b d =
     (let errors = loginValidation e b in
      if errors \<noteq> [] then validation_response errors
      else
        let email' = normalizeEmail e (login_email b);
            password' = login_password b
        in case map_option select_plus_password (find (\<lambda>u. email u = email') (users d)) of
             None \<Rightarrow> error_response 401 ''Invalid email or password''
           | Some u \<Rightarrow>
               if \<not> comparePassword e u password'
               then error_response 401 ''Invalid email or password''
               else (case getSignedJwtToken e (doc u) of
                       None \<Rightarrow> error_response 500 ''Error during login''
                     | Some token \<Rightarrow>
                         \<lparr>status_code = 200,
                          body = JObj [(''status'', JStr ''success''),
                            (''message'', JStr ''Login successful''),
                            (''data'', JObj [(''user'', toJSON u), (''token'', JStr token)])]\<rparr>))"

text \<open>\<^verbatim>\<open>GET /api/auth/me\<close>, after \<^verbatim>\<open>authenticate\<close>.\<close>

definition get_me :: "user_doc \<Rightarrow> response" where
  "get_me req_user =
     \<lparr>status_code = 200,
      body = JObj [(''status'', JStr ''success''),
                   (''data'', JObj [(''user'', toJSON req_user)])]\<rparr>"

text \<open>
  \<^verbatim>\<open>User.findByIdAndUpdate(id, update, { new: true, runValidators: true })\<close> once
  the update has passed the validators: the changed document, with the default
  selection.
\<close>

definition findByIdAndUpdate :: "env \<Rightarrow> object_id \<Rightarrow> (user \<Rightarrow> user) \<Rightarrow> db \<Rightarrow> (user \<times> db) option" where
  "findByIdAndUpdate e i f d =
     (case findById i d of
        None \<Rightarrow> None
      | Some u \<Rightarrow>
          (let u' = (f u)\<lparr>updatedAt := date_now e\<rparr>
           in Some (u', d\<lparr>users := replaceOne (\<lambda>x. user_id x = i) u' (users d)\<rparr>)))"

record profile_body =
  pb_firstName :: "string option"
  pb_lastName :: "string option"
  pb_phone :: "string option"
  pb_dateOfBirth :: "string option"
  pb_preferences :: "user_preferences option"

definition optional :: "('a \<Rightarrow> bool) \<Rightarrow> 'a option \<Rightarrow> bool" where
  "optional P v = (case v of None \<Rightarrow> True | Some x \<Rightarrow> P x)"

definition opt_str :: "string option \<Rightarrow> string" where
  "opt_str v = (case v of None \<Rightarrow> [] | Some s \<Rightarrow> s)"

definition or_else :: "'a option \<Rightarrow> 'a \<Rightarrow> 'a" where
  "or_else v x = (case v of None \<Rightarrow> x | Some y \<Rightarrow> y)"

text \<open>The validators of the schema on the paths an update sets.\<close>

definition name_valid :: "string \<Rightarrow> bool" where
  "name_valid s = (s \<noteq> [] \<and> length s \<le> 50)"

text \<open>
  The update of the two profile routes: the names and the phone trimmed, the date of
  birth cast to a date (\<open>None\<close> when the cast or a validator fails).
\<close>

definition profile_update ::
  "env \<Rightarrow> string option \<Rightarrow> string option \<Rightarrow> string option \<Rightarrow> string option
     \<Rightarrow> user_preferences option \<Rightarrow> (user \<Rightarrow> user) option" where
  "profile_update e fname lname ph dob prefs =
     (if \<not> optional name_valid fname \<or> \<not> optional name_valid lname
         \<or> \<not> optional (\<lambda>s. date_parse e s \<noteq> None) dob
         \<or> \<not> optional preferences_valid prefs
      then None
      else Some (\<lambda>u. u\<lparr>firstName := or_else fname (firstName u),
                        lastName := or_else lname (lastName u),
                        phone := (case ph of None \<Rightarrow> phone u | Some x \<Rightarrow> Some x),
                        dateOfBirth := (case dob of None \<Rightarrow> dateOfBirth u
                                        | Some x \<Rightarrow> date_parse e x),
                        preferences := or_else prefs (preferences u)\<rparr>))"

text \<open>\<^verbatim>\<open>PUT /api/auth/profile\<close>, after \<^verbatim>\<open>authenticate\<close>.\<close>

definition auth_update_profile :: "env \<Rightarrow> user_doc \<Rightarrow> profile_body \<Rightarrow> db \<Rightarrow> response \<times> db" where
  "auth_update_profile e req_user b d =
     (let errors = check (optional (isISO8601 e) (pb_dateOfBirth b))
                     (field_error ''body'' ''dateOfBirth'' (opt_str (pb_dateOfBirth b))
                        ''Invalid date format'')
      in if errors \<noteq> [] then (validation_response errors, d)
         else (case profile_update e (map_option js_trim (pb_firstName b))
                      (map_option js_trim (pb_lastName b)) (map_option js_trim (pb_phone b))
                      (pb_dateOfBirth b) (pb_preferences b) of
                 None \<Rightarrow> (error_response 500 ''Error updating profile'', d)
               | Some f \<Rightarrow>
                   (case findByIdAndUpdate e (user_id (doc req_user)) f d of
                      None \<Rightarrow> (error_response 404 ''User not found'', d)
                    | Some (u, d') \<Rightarrow>
                        (\<lparr>status_code = 200,
                          body = JObj [(''status'', JStr ''success''),
                            (''message'', JStr ''Profile updated successfully''),
                            (''data'', JObj [(''user'', toJSON (select_default u))])]\<rparr>, d'))))"

section \<open>Routes of /api/users\<close>

text \<open>\<^verbatim>\<open>PUT /api/users/profile\<close>, after \<^verbatim>\<open>authenticate\<close>.\<close>

definition users_update_profile :: "env \<Rightarrow> user_doc \<Rightarrow> profile_body \<Rightarrow> db \<Rightarrow> response \<times> db" where
  "users_update_profile e req_user b d =
     (let fname = map_option js_trim (pb_firstName b);
          lname = map_option js_trim (pb_lastName b);
          ph = map_option js_trim (pb_phone b);
          errors =
            check (optional (\<lambda>s. 1 \<le> length s \<and> length s \<le> 50) fname)
              (field_error ''body'' ''firstName'' (opt_str fname) ''Invalid value'')
            @ check (optional (\<lambda>s. 1 \<le> length s \<and> length s \<le> 50) lname)
              (field_error ''body'' ''lastName'' (opt_str lname) ''Invalid value'')
            @ check (optional (isISO8601 e) (pb_dateOfBirth b))
              (field_error ''body'' ''dateOfBirth'' (opt_str (pb_dateOfBirth b)) ''Invalid value'')
      in if errors \<noteq> [] then (validation_response errors, d)
         else if fname = None \<and> lname = None \<and> ph = None \<and> pb_dateOfBirth b = None
         then (error_response 400 ''No valid fields provided for update'', d)
         else (case profile_update e fname lname ph (pb_dateOfBirth b) None of
                 None \<Rightarrow> (error_response 500 ''Error updating profile'', d)
               | Some f \<Rightarrow>
                   (case findByIdAndUpdate e (user_id (doc req_user)) f d of
                      None \<Rightarrow> (error_response 404 ''User not found'', d)
                    | Some (u, d') \<Rightarrow>
                        (\<lparr>status_code = 200,
                          body = JObj [(''status'', JStr ''success''),
                            (''message'', JStr ''Profile updated successfully''),
                            (''data'', JObj [(''user'', toJSON (select_default u))])]\<rparr>, d'))))"

text \<open>
  \<^verbatim>\<open>PUT /api/users/preferences\<close>, after \<^verbatim>\<open>authenticate\<close>. The body carries the
  three optional fields of the preferences; what it leaves out is taken from the
  document \<^verbatim>\<open>authenticate\<close> attached.
\<close>

definition users_update_preferences ::
  "env \<Rightarrow> user_doc \<Rightarrow> user_preferences \<Rightarrow> db \<Rightarrow> response \<times> db" where
  "users_update_preferences e req_user b d =
     (let errors =
            check (optional (\<lambda>c. c \<in> set currencies) (currency b))
              (field_error ''body'' ''currency'' (opt_str (currency b)) ''Invalid value'')
            @ check (optional (\<lambda>l. l \<in> set languages) (language b))
              (field_error ''body'' ''language'' (opt_str (language b)) ''Invalid value'')
      in if errors \<noteq> [] then (validation_response errors, d)
         else if currency b = None \<and> language b = None \<and> notifications b = None
         then (error_response 400 ''No preferences provided for update'', d)
         else
           let old = preferences (doc req_user);
               merged = \<lparr>currency = (case currency b of None \<Rightarrow> currency old | Some x \<Rightarrow> Some x),
                         language = (case language b of None \<Rightarrow> language old | Some x \<Rightarrow> Some x),
                         notifications = (case notifications b of None \<Rightarrow> notifications old
                                          | Some x \<Rightarrow> Some x)\<rparr>
           in if \<not> preferences_valid merged
              then (error_response 500 ''Error updating preferences'', d)
              else (case findByIdAndUpdate e (user_id (doc req_user))
                           (\<lambda>u. u\<lparr>preferences := merged\<rparr>) d of
                      None \<Rightarrow> (error_response 404 ''User not found'', d)
                    | Some (u, d') \<Rightarrow>
                        (\<lparr>status_code = 200,
                          body = JObj [(''status'', JStr ''success''),
                            (''message'', JStr ''Preferences updated successfully''),
                            (''data'', JObj [(''preferences'',
                               preferences_json (preferences u))])]\<rparr>, d')))"

record passport_body =
  pp_number :: string
  pp_expiryDate :: string
  pp_countryOfIssue :: string

text \<open>
  \<^verbatim>\<open>PUT /api/users/passport\<close>, after \<^verbatim>\<open>authenticate\<close>. An expiry that is no date
  passes the comparison with the clock and fails the cast of the update.
\<close>

definition users_update_passport :: "env \<Rightarrow> user_doc \<Rightarrow> passport_body \<Rightarrow> db \<Rightarrow> response \<times> db" where
  "users_update_passport e req_user b d =
     (let errors =
            check (pp_number b \<noteq> [])
              (field_error ''body'' ''number'' (pp_number b) ''Passport number is required'')
            @ check (isISO8601 e (pp_expiryDate b))
              (field_error ''body'' ''expiryDate'' (pp_expiryDate b) ''Valid expiry date is required'')
            @ check (pp_countryOfIssue b \<noteq> [])
              (field_error ''body'' ''countryOfIssue'' (pp_countryOfIssue b)
                 ''Country of issue is required'')
      in if errors \<noteq> [] then (validation_response errors, d)
         else (case date_parse e (pp_expiryDate b) of
                 None \<Rightarrow> (error_response 500 ''Error updating passport information'', d)
               | Some expiry \<Rightarrow>
                   if expiry \<le> date_now e
                   then (error_response 400 ''Passport expiry date must be in the future'', d)
                   else (case findByIdAndUpdate e (user_id (doc req_user))
                                (\<lambda>u. u\<lparr>passport := Some \<lparr>passport_number = pp_number b,
                                           expiryDate = expiry,
                                           countryOfIssue = pp_countryOfIssue b\<rparr>\<rparr>) d of
                           None \<Rightarrow> (error_response 404 ''User not found'', d)
                         | Some (u, d') \<Rightarrow>
                             (\<lparr>status_code = 200,
                               body = JObj [(''status'', JStr ''success''),
                                 (''message'', JStr ''Passport information updated successfully''),
                                 (''data'', JObj (opt_field ''passport'' passport_json
                                                   (passport u)))]\<rparr>, d'))))"

text \<open>
  \<^verbatim>\<open>DELETE /api/users/account\<close>, after \<^verbatim>\<open>authenticate\<close>: \<open>uid\<close> is
  \<^verbatim>\<open>req.user._id\<close>, \<open>pw\<close> the password of the body (absent reads as empty).
\<close>

definition active_status :: "booking_status \<Rightarrow> bool" where
  "active_status s = (s \<in> set [Pending, Confirmed])"

definition delete_account :: "env \<Rightarrow> object_id \<Rightarrow> string \<Rightarrow> db \<Rightarrow> response \<times> db" where
  "delete_account e uid pw d =
     (let errors = check (pw \<noteq> [])
                     (field_error ''body'' ''password'' pw
                        ''Password is required for account deletion'')
      in if errors \<noteq> [] then (validation_response errors, d)
         else (case map_option select_plus_password (findById uid d) of
                 None \<Rightarrow> (error_response 404 ''User not found'', d)
               | Some u \<Rightarrow>
                   if \<not> comparePassword e u pw
                   then (error_response 401 ''Invalid password'', d)
                   else
                     let activeBookings =
                           countDocuments (\<lambda>b. b_user b = uid \<and> active_status (b_status b))
                             (bookings d)
                     in if activeBookings > 0
                        then (error_response 400
          ''Cannot delete account with active bookings. Please cancel or complete all bookings first.'',
                              d)
                        else
                          let d1 = d\<lparr>bookings := deleteMany (\<lambda>b. b_user b = uid) (bookings d)\<rparr>;
                              d2 = d1\<lparr>users := deleteOne (\<lambda>u. user_id u = uid) (users d1)\<rparr>
                          in (\<lparr>status_code = 200,
                               body = JObj [(''status'', JStr ''success''),
                                 (''message'', JStr ''Account deleted successfully'')]\<rparr>, d2)))"

text \<open>
  \<^verbatim>\<open>parseInt(v) || dflt\<close> on a query parameter that may be absent: NaN and 0 give
  the default.
\<close>

definition parseInt_or :: "string option \<Rightarrow> int \<Rightarrow> int" where
  "parseInt_or v dflt =
     (case v of
        None \<Rightarrow> dflt
      | Some s \<Rightarrow> (case js_parseInt s of None \<Rightarrow> dflt | Some n \<Rightarrow> if n = 0 then dflt else n))"

definition pagination_json :: "int \<Rightarrow> int \<Rightarrow> nat \<Rightarrow> json" where
  "pagination_json page limit n =
     JObj [(''page'', JNum (real_of_int page)),
           (''limit'', JNum (real_of_int limit)),
           (''total'', JNum (real n)),
           (''totalPages'', JNum (real_of_int (math_ceil_div (int n) limit)))]"

text \<open>
  \<^verbatim>\<open>GET /api/users\<close>, after \<^verbatim>\<open>authenticate\<close> and \<^verbatim>\<open>authorize('admin')\<close>. The
  store refuses a negative \<^verbatim>\<open>skip\<close>, and reads a negative \<^verbatim>\<open>limit\<close> as its
  absolute value.
\<close>

definition list_users :: "string option \<Rightarrow> string option \<Rightarrow> db \<Rightarrow> response" where
  "list_users q_page q_limit d =
     (let page = parseInt_or q_page 1;
          limit = parseInt_or q_limit 20;
          skip = (page - 1) * limit
      in if skip < 0 then error_response 500 ''Error fetching users''
         else
           let found = take (nat \<bar>limit\<bar>) (drop (nat skip)
                         (sort_desc createdAt (users d)));
               n = countDocuments (\<lambda>u. True) (users d)
           in \<lparr>status_code = 200,
               body = JObj [(''status'', JStr ''success''),
                 (''data'', JObj [(''users'',
                    JArr (map (\<lambda>u. toJSON (select_minus_password u)) found))]),
                 (''pagination'', pagination_json page limit n)]\<rparr>)"

text \<open>
  \<^verbatim>\<open>GET /api/users/dashboard\<close>, after \<^verbatim>\<open>authenticate\<close>. A date inside the
  free-form details of a booking is a number, its milliseconds; a group of
  \<^verbatim>\<open>$group\<close> stands where its status first occurs in the collection (the store
  leaves the order of the groups open).
\<close>

definition recent_booking_json :: "booking \<Rightarrow> json" where
  "recent_booking_json b =
     JObj [(''_id'', JStr (booking_id b)),
           (''type'', JStr (type_name (b_type b))),
           (''bookingReference'', JStr (bookingReference b)),
           (''status'', JStr (status_name (b_status b))),
           (''totalAmount'', JNum (totalAmount b)),
           (''currency'', JStr (b_currency b)),
           (''bookingDetails'', bookingDetails b),
           (''createdAt'', JNum (real (b_createdAt b)))]"

definition bookingStats :: "booking list \<Rightarrow> json list" where
  "bookingStats bs =
     map (\<lambda>s. JObj [(''_id'', JStr (status_name s)),
                    (''count'', JNum (real (length (filter (\<lambda>b. b_status b = s) bs)))),
                    (''totalSpent'', JNum (sum_list (map totalAmount
                                                     (filter (\<lambda>b. b_status b = s) bs))))])
       (remdups (map b_status bs))"

definition departure_date :: "booking \<Rightarrow> real option" where
  "departure_date b =
     (case json_field ''date'' (json_field ''departure'' (bookingDetails b)) of
        JNum t \<Rightarrow> Some t
      | _ \<Rightarrow> None)"

definition sub_field :: "string \<Rightarrow> json \<Rightarrow> (string \<times> json) list" where
  "sub_field k j = (case json_field k j of JNull \<Rightarrow> [] | v \<Rightarrow> [(k, v)])"

definition upcoming_trip_json :: "booking \<Rightarrow> json" where
  "upcoming_trip_json b =
     JObj [(''_id'', JStr (booking_id b)),
           (''type'', JStr (type_name (b_type b))),
           (''bookingDetails'', JObj (sub_field ''departure'' (bookingDetails b)
                                      @ sub_field ''arrival'' (bookingDetails b)
                                      @ sub_field ''checkIn'' (bookingDetails b)))]"

definition upcomingTrips :: "env \<Rightarrow> object_id \<Rightarrow> db \<Rightarrow> booking list" where
  "upcomingTrips e uid d =
     take 3 (map fst (sort_key snd
       (List.map_filter
          (\<lambda>b. case departure_date b of
                  None \<Rightarrow> None
                | Some t \<Rightarrow> if b_user b = uid \<and> b_status b = Confirmed \<and> real (date_now e) \<le> t
                            then Some (b, t) else None)
          (bookings d))))"

definition get_dashboard :: "env \<Rightarrow> user_doc \<Rightarrow> db \<Rightarrow> response" where
  "get_dashboard e req_user d =
     (let userId = user_id (doc req_user);
          mine = filter (\<lambda>b. b_user b = userId) (bookings d);
          recentBookings = take 5 (sort_desc b_createdAt mine);
          totalBookings = countDocuments (\<lambda>b. b_user b = userId) (bookings d);
          totalSpent = sum_list (map totalAmount (filter (\<lambda>b. b_status b \<noteq> Cancelled) mine))
      in \<lparr>status_code = 200,
          body = JObj [(''status'', JStr ''success''),
            (''data'', JObj [(''dashboard'', JObj [
               (''user'', toJSON req_user),
               (''stats'', JObj [
                  (''totalBookings'', JNum (real totalBookings)),
                  (''totalSpent'', JNum totalSpent),
                  (''bookingsByStatus'', JArr (bookingStats mine))]),
               (''recentBookings'', JArr (map recent_booking_json recentBookings)),
               (''upcomingTrips'', JArr (map upcoming_trip_json (upcomingTrips e userId d)))])])]\<rparr>)"

section \<open>Routes of /api/bookings\<close>







definition id_errors :: "string \<Rightarrow> json list" where
  "id_errors i = check (isMongoId i)
                   (field_error ''params'' ''id'' i ''Valid booking ID is required'')"

text \<open>\<^verbatim>\<open>GET /api/bookings/:id\<close>, after \<^verbatim>\<open>authenticate\<close>.\<close>

definition get_booking :: "object_id \<Rightarrow> string \<Rightarrow> db \<Rightarrow> response" where
  "get_booking uid i d =
     (let errors = id_errors i in
      if errors \<noteq> [] then validation_response errors
      else (case find (\<lambda>b. booking_id b = i \<and> b_user b = uid) (bookings d) of
              None \<Rightarrow> error_response 404 ''Booking not found''
            | Some b \<Rightarrow>
                \<lparr>status_code = 200,
                 body = JObj [(''status'', JStr ''success''),
                   (''data'', JObj [(''booking'',
                      booking_json (populate_user d (b_user b)) b)])]\<rparr>))"




section \<open>Routes of /api/restaurants\<close>

record geo_point =
  lat :: real
  lng :: real

record restaurant_location =
  address :: string
  city :: string
  country :: string
  coordinates :: geo_point

record restaurant_contact =
  contact_phone :: string
  website :: "string option"
  contact_email :: "string option"

record day_hours =
  opens :: string
  closes :: string
  closed :: bool

record restaurant =
  restaurant_id :: string
  restaurant_name :: string
  cuisine :: "string list"
  rating :: real
  priceRange :: string
  location :: restaurant_location
  contact :: restaurant_contact
  openingHours :: "(string \<times> day_hours) list"
  images :: "string list"
  features :: "string list"
  description :: string

definition hours :: "string \<Rightarrow> string \<Rightarrow> day_hours" where
  "hours a b = \<lparr>opens = a, closes = b, closed = False\<rparr>"

definition golden_spoon :: restaurant where
  "golden_spoon =
     \<lparr>restaurant_id = ''REST001'',
      restaurant_name = ''The Golden Spoon'',
      cuisine = [''Italian'', ''Mediterranean''],
      rating = 4.5,
      priceRange = ''$$$'',
      location = \<lparr>address = ''789 Restaurant Row'', city = ''New York'', country = ''USA'',
                   coordinates = \<lparr>lat = 40.7580, lng = - 73.9855\<rparr>\<rparr>,
      contact = \<lparr>contact_phone = ''+1-555-0123'',
                  website = Some ''https://thegoldenspoon.com'',
                  contact_email = Some ''info@thegoldenspoon.com''\<rparr>,
      openingHours =
        [(''monday'', hours ''17:00'' ''22:00''), (''tuesday'', hours ''17:00'' ''22:00''),
         (''wednesday'', hours ''17:00'' ''22:00''), (''thursday'', hours ''17:00'' ''23:00''),
         (''friday'', hours ''17:00'' ''23:00''), (''saturday'', hours ''16:00'' ''23:00''),
         (''sunday'', hours ''16:00'' ''22:00'')],
      images = [''https://example.com/restaurant1-1.jpg'',
                ''https://example.com/restaurant1-2.jpg''],
      features = [''Outdoor Seating'', ''Wine Bar'', ''Romantic'', ''Business Dining''],
      description =
  ''An elegant Italian restaurant featuring authentic Mediterranean cuisine in the heart of Manhattan.''\<rparr>"

definition sakura_sushi :: restaurant where
  "sakura_sushi =
     \<lparr>restaurant_id = ''REST002'',
      restaurant_name = ''Sakura Sushi'',
      cuisine = [''Japanese'', ''Sushi''],
      rating = 4.8,
      priceRange = ''$$'',
      location = \<lparr>address = ''456 Sushi Street'', city = ''Los Angeles'', country = ''USA'',
                   coordinates = \<lparr>lat = 34.0522, lng = - 118.2437\<rparr>\<rparr>,
      contact = \<lparr>contact_phone = ''+1-555-0456'',
                  website = Some ''https://sakurasushi.com'',
                  contact_email = None\<rparr>,
      openingHours =
        [(''monday'', hours ''11:30'' ''21:00''), (''tuesday'', hours ''11:30'' ''21:00''),
         (''wednesday'', hours ''11:30'' ''21:00''), (''thursday'', hours ''11:30'' ''21:00''),
         (''friday'', hours ''11:30'' ''22:00''), (''saturday'', hours ''11:30'' ''22:00''),
         (''sunday'', hours ''12:00'' ''21:00'')],
      images = [''https://example.com/restaurant2-1.jpg'',
                ''https://example.com/restaurant2-2.jpg''],
      features = [''Fresh Fish'', ''Sushi Bar'', ''Takeout'', ''Lunch Specials''],
      description =
        ''Fresh, authentic sushi and Japanese cuisine made with the finest ingredients.''\<rparr>"

definition petit_bistro :: restaurant where
  "petit_bistro =
     \<lparr>restaurant_id = ''REST003'',
      restaurant_name = ''Le Petit Bistro'',
      cuisine = [''French''],
      rating = 4.3,
      priceRange = ''$$$$'',
      location = \<lparr>address = ''123 French Quarter'', city = ''Chicago'', country = ''USA'',
                   coordinates = \<lparr>lat = 41.8781, lng = - 87.6298\<rparr>\<rparr>,
      contact = \<lparr>contact_phone = ''+1-555-0789'',
                  website = Some ''https://lepetitbistro.com'',
                  contact_email = Some ''reservations@lepetitbistro.com''\<rparr>,
      openingHours =
        [(''monday'', \<lparr>opens = [], closes = [], closed = True\<rparr>),
         (''tuesday'', hours ''17:30'' ''22:00''),
         (''wednesday'', hours ''17:30'' ''22:00''), (''thursday'', hours ''17:30'' ''22:00''),
         (''friday'', hours ''17:30'' ''23:00''), (''saturday'', hours ''17:30'' ''23:00''),
         (''sunday'', hours ''17:00'' ''21:30'')],
      images = [''https://example.com/restaurant3-1.jpg'',
                ''https://example.com/restaurant3-2.jpg''],
      features = [''Fine Dining'', ''Wine Cellar'', ''Chef's Table'', ''Private Dining''],
      description =
  ''Classic French cuisine in an intimate bistro setting with an extensive wine collection.''\<rparr>"

definition mockRestaurants :: "restaurant list" where
  "mockRestaurants = [golden_spoon, sakura_sushi, petit_bistro]"

definition day_hours_json :: "day_hours \<Rightarrow> json" where
  "day_hours_json h =
     JObj [(''open'', JStr (opens h)), (''close'', JStr (closes h)), (''closed'', JBool (closed h))]"

definition restaurant_fields :: "restaurant \<Rightarrow> (string \<times> json) list" where
  "restaurant_fields r =
     [(''id'', JStr (restaurant_id r)),
      (''name'', JStr (restaurant_name r)),
      (''cuisine'', JArr (map JStr (cuisine r))),
      (''rating'', JNum (rating r)),
      (''priceRange'', JStr (priceRange r)),
      (''location'', JObj [(''address'', JStr (address (location r))),
                           (''city'', JStr (city (location r))),
                           (''country'', JStr (country (location r))),
                           (''coordinates'', JObj [
                              (''lat'', JNum (lat (coordinates (location r)))),
                              (''lng'', JNum (lng (coordinates (location r))))])]),
      (''contact'', JObj ([(''phone'', JStr (contact_phone (contact r)))]
                          @ opt_field ''website'' JStr (website (contact r))
                          @ opt_field ''email'' JStr (contact_email (contact r)))),
      (''openingHours'', JObj (map (\<lambda>(day, h). (day, day_hours_json h)) (openingHours r))),
      (''images'', JArr (map JStr (images r))),
      (''features'', JArr (map JStr (features r))),
      (''description'', JStr (description r))]"

text \<open>The three optional filters the two searches share.\<close>

definition matchesCuisine :: "string option \<Rightarrow> restaurant \<Rightarrow> bool" where
  "matchesCuisine q r =
     (case q of
        None \<Rightarrow> True
      | Some c \<Rightarrow> if c = [] then True
                  else list_ex (\<lambda>x. js_includes (js_toLowerCase x) (js_toLowerCase c)) (cuisine r))"

definition matchesPriceRange :: "string option \<Rightarrow> restaurant \<Rightarrow> bool" where
  "matchesPriceRange q r =
     (case q of None \<Rightarrow> True | Some p \<Rightarrow> if p = [] then True else priceRange r = p)"

text \<open>A rating that does not parse is NaN, and no comparison with NaN holds.\<close>

definition matchesRating :: "env \<Rightarrow> string option \<Rightarrow> restaurant \<Rightarrow> bool" where
  "matchesRating e q r =
     (case q of
        None \<Rightarrow> True
      | Some s \<Rightarrow> if s = [] then True
                  else (case parseFloat e s of None \<Rightarrow> False | Some x \<Rightarrow> rating r \<ge> x))"

text \<open>
  \<^verbatim>\<open>isFloat({ min, max })\<close> of express-validator: the pattern of a decimal number,
  and the parsed value within the bounds that are given.
\<close>

definition isFloat :: "env \<Rightarrow> string \<Rightarrow> real option \<Rightarrow> real option \<Rightarrow> bool" where
  "isFloat e s lo hi =
     (float_syntax e s \<and>
      (case lo of None \<Rightarrow> True
       | Some l \<Rightarrow> (case parseFloat e s of None \<Rightarrow> False | Some x \<Rightarrow> l \<le> x)) \<and>
      (case hi of None \<Rightarrow> True
       | Some h \<Rightarrow> (case parseFloat e s of None \<Rightarrow> False | Some x \<Rightarrow> x \<le> h)))"








text \<open>
  \<^verbatim>\<open>calculateDistance\<close> of the proximity search, over the real numbers: the
  rounding of the floating-point operations is outside this model. The two
  arguments of \<^verbatim>\<open>Math.atan2\<close> are square roots here.
\<close>

definition atan2 :: "real \<Rightarrow> real \<Rightarrow> real" where
  "atan2 y x =
     (if x > 0 then arctan (y / x)
      else if x < 0 \<and> y \<ge> 0 then arctan (y / x) + pi
      else if x < 0 \<and> y < 0 then arctan (y / x) - pi
      else if y > 0 then pi / 2
      else if y < 0 then - pi / 2
      else 0)"

definition calculateDistance :: "real \<Rightarrow> real \<Rightarrow> real \<Rightarrow> real \<Rightarrow> real" where
  "calculateDistance lat1 lng1 lat2 lng2 =
     (let R = 6371;
          dLat = (lat2 - lat1) * (pi / 180);
          dLng = (lng2 - lng1) * (pi / 180);
          a = sin (dLat / 2) * sin (dLat / 2)
              + cos (lat1 * (pi / 180)) * cos (lat2 * (pi / 180))
                * sin (dLng / 2) * sin (dLng / 2);
          c = 2 * atan2 (sqrt a) (sqrt (1 - a))
      in R * c)"

record nearby_query =
  nq_lat :: string
  nq_lng :: string
  nq_radius :: "string option"
  nq_cuisine :: "string option"
  nq_priceRange :: "string option"
  nq_rating :: "string option"
  nq_page :: "string option"
  nq_limit :: "string option"

definition nearby_query_errors :: "env \<Rightarrow> nearby_query \<Rightarrow> json list" where
  "nearby_query_errors e q =
     check (isFloat e (nq_lat q) None None)
       (field_error ''query'' ''lat'' (nq_lat q) ''Valid latitude is required'')
     @ check (isFloat e (nq_lng q) None None)
       (field_error ''query'' ''lng'' (nq_lng q) ''Valid longitude is required'')
     @ check (optional (\<lambda>r. isFloat e r (Some 0.1) (Some 50)) (nq_radius q))
       (field_error ''query'' ''radius'' (opt_str (nq_radius q))
          ''Radius must be between 0.1 and 50 km'')"

text \<open>\<^verbatim>\<open>radius = 5\<close> when the query has none; \<open>None\<close> is NaN.\<close>

definition searchRadius :: "env \<Rightarrow> nearby_query \<Rightarrow> real option" where
  "searchRadius e q = (case nq_radius q of None \<Rightarrow> Some 5 | Some s \<Rightarrow> parseFloat e s)"

text \<open>The distance of a restaurant from the caller, NaN when a coordinate is.\<close>

definition distance_from :: "env \<Rightarrow> nearby_query \<Rightarrow> restaurant \<Rightarrow> real option" where
  "distance_from e q r =
     (case (parseFloat e (nq_lat q), parseFloat e (nq_lng q)) of
        (Some userLat, Some userLng) \<Rightarrow>
          Some (calculateDistance userLat userLng
                  (lat (coordinates (location r))) (lng (coordinates (location r))))
      | _ \<Rightarrow> None)"

definition within_radius :: "env \<Rightarrow> nearby_query \<Rightarrow> restaurant \<Rightarrow> (restaurant \<times> real) option" where
  "within_radius e q r =
     (case (distance_from e q r, searchRadius e q) of
        (Some x, Some radius) \<Rightarrow> if x \<le> radius then Some (r, x) else None
      | _ \<Rightarrow> None)"

definition nearby_filter :: "env \<Rightarrow> nearby_query \<Rightarrow> restaurant \<Rightarrow> bool" where
  "nearby_filter e q r =
     (matchesCuisine (nq_cuisine q) r \<and> matchesPriceRange (nq_priceRange q) r
      \<and> matchesRating e (nq_rating q) r)"

text \<open>
  The chain \<^verbatim>\<open>map\<close>, \<^verbatim>\<open>filter\<close>, \<^verbatim>\<open>filter\<close>, \<^verbatim>\<open>sort\<close> of the handler: each
  restaurant with its distance, those within the radius, those that match the
  optional filters, nearest first.
\<close>

definition nearbyRestaurants :: "env \<Rightarrow> nearby_query \<Rightarrow> (restaurant \<times> real) list" where
  "nearbyRestaurants e q =
     sort_key snd
       (filter (\<lambda>(r, x). nearby_filter e q r)
          (List.map_filter (within_radius e q) mockRestaurants))"

definition js_number :: "real option \<Rightarrow> json" where
  "js_number v = (case v of None \<Rightarrow> JNull | Some x \<Rightarrow> JNum x)"

text \<open>\<^verbatim>\<open>GET /api/restaurants/nearby\<close>.\<close>

definition nearby_restaurants :: "env \<Rightarrow> nearby_query \<Rightarrow> response" where
  "nearby_restaurants e q =
     (let errors = nearby_query_errors e q in
      if errors \<noteq> [] then validation_response errors
      else
        let found = nearbyRestaurants e q;
            page = parseInt_or (nq_page q) 1;
            limit = parseInt_or (nq_limit q) 20;
            startIndex = (page - 1) * limit;
            endIndex = page * limit;
            paginatedRestaurants = js_slice found startIndex endIndex
        in \<lparr>status_code = 200,
            body = JObj [(''status'', JStr ''success''),
              (''data'', JObj [
                 (''restaurants'',
                    JArr (map (\<lambda>(r, x). JObj (restaurant_fields r @ [(''distance'', JNum x)]))
                            paginatedRestaurants)),
                 (''searchParams'', JObj [
                    (''lat'', js_number (parseFloat e (nq_lat q))),
                    (''lng'', js_number (parseFloat e (nq_lng q))),
                    (''radius'', js_number (searchRadius e q))])]),
              (''pagination'', pagination_json page limit (length found))]\<rparr>)"

text \<open>\<^verbatim>\<open>GET /api/restaurants/:id\<close>.\<close>

definition get_restaurant :: "string \<Rightarrow> response" where
  "get_restaurant i =
     (case find (\<lambda>r. restaurant_id r = i) mockRestaurants of
        None \<Rightarrow> error_response 404 ''Restaurant not found''
      | Some r \<Rightarrow>
          \<lparr>status_code = 200,
           body = JObj [(''status'', JStr ''success''),
                        (''data'', JObj [(''restaurant'', JObj (restaurant_fields r))])]\<rparr>)"

section \<open>Notions of the specification\<close>




text \<open>The members \<^verbatim>\<open>data\<close> and \<^verbatim>\<open>pagination\<close> of a response body.\<close>

definition data_field :: "string \<Rightarrow> response \<Rightarrow> json" where
  "data_field k r = json_field k (json_field ''data'' (body r))"

definition pagination_field :: "string \<Rightarrow> response \<Rightarrow> json" where
  "pagination_field k r = json_field k (json_field ''pagination'' (body r))"

section \<open>A concrete environment and store\<close>

text \<open>
  Stand-ins for the libraries, small enough to evaluate: a token is the secret, a
  colon and the identifier; a hash is the salt, a dollar sign and the password. They
  are used only where a handler is run on a concrete request.
\<close>

definition example_env :: env where
  "example_env =
     \<lparr>JWT_SECRET = Some ''k'',
      JWT_EXPIRE = None,
      jwt_sign = (\<lambda>p secret expiresIn. secret @ '':'' @ jwt_userId p),
      jwt_verify = (\<lambda>token secret.
         if prefix (secret @ '':'') token
         then Some \<lparr>jwt_userId = drop (length secret + 1) token, jwt_email = [],
                     jwt_role = ''user''\<rparr>
         else None),
      bcrypt_genSalt = ''s'',
      bcrypt_hash = (\<lambda>pw salt. salt @ ''$'' @ pw),
      bcrypt_compare = (\<lambda>pw h. h = ''s$'' @ pw),
      isEmail = (\<lambda>s. CHR ''@'' \<in> set s),
      normalizeEmail = js_toLowerCase,
      isISO8601 = (\<lambda>s. s \<noteq> []),
      schema_email_match = (\<lambda>s. CHR ''@'' \<in> set s),
      date_now = 1700000000000,
      date_parse = (\<lambda>s. None),
      math_random36 = ''0.4fzyo82mvyr'',
      new_object_id = ''cccccccccccccccccccccccc'',
      float_syntax = (\<lambda>s. s \<in> set [''34.0522'', ''-118.2437'', ''1'']),
      parseFloat = (\<lambda>s. if s = ''34.0522'' then Some 34.0522
                         else if s = ''-118.2437'' then Some (- 118.2437)
                         else if s = ''1'' then Some 1
                         else None)\<rparr>"

definition alice :: user where
  "alice =
     \<lparr>user_id = ''aaaaaaaaaaaaaaaaaaaaaaaa'',
      firstName = ''Alice'',
      lastName = ''Liddell'',
      email = ''alice@example.com'',
      password = ''s$Secret1'',
      phone = None,
      dateOfBirth = None,
      passport = None,
      preferences = \<lparr>currency = Some ''USD'', language = Some ''en'', notifications = Some True\<rparr>,
      isEmailVerified = False,
      role = RoleUser,
      createdAt = 1600000000000,
      updatedAt = 1600000000000,
      user_v = 0\<rparr>"

definition booking1 :: booking where
  "booking1 =
     \<lparr>booking_id = ''b00000000000000000000001'',
      b_user = ''aaaaaaaaaaaaaaaaaaaaaaaa'',
      b_type = Flight,
      bookingReference = ''FLIGHT-LOYW3V28-4FZYO'',
      b_status = Pending,
      totalAmount = 420,
      b_currency = ''USD'',
      bookingDetails = JObj [],
      b_createdAt = 1650000000000,
      b_updatedAt = 1650000000000,
      b_v = 0\<rparr>"

definition booking2 :: booking where
  "booking2 =
     \<lparr>booking_id = ''b00000000000000000000002'',
      b_user = ''aaaaaaaaaaaaaaaaaaaaaaaa'',
      b_type = Hotel,
      bookingReference = ''HOTEL-LOYW3V29-82MVY'',
      b_status = Completed,
      totalAmount = 300,
      b_currency = ''USD'',
      bookingDetails = JObj [],
      b_createdAt = 1660000000000,
      b_updatedAt = 1660000000000,
      b_v = 0\<rparr>"

definition example_db :: db where
  "example_db = \<lparr>users = [alice], bookings = [booking1, booking2]\<rparr>"

text \<open>The same store once every booking of the account has reached a final status.\<close>

definition settled_db :: db where
  "settled_db = \<lparr>users = [alice], bookings = [booking1\<lparr>b_status := Cancelled\<rparr>, booking2]\<rparr>"

section \<open>Facts about the store\<close>

text \<open>
  In a collection whose documents have distinct keys, the first match on a key is the
  only one: \<^verbatim>\<open>findOne\<close> returns it and \<^verbatim>\<open>updateOne\<close> replaces it.
\<close>

lemma find_by_key:
  "distinct (map f xs) \<Longrightarrow> b \<in> set xs \<Longrightarrow> find (\<lambda>x. f x = f b \<and> P x) xs = (if P b then Some b else None)"
proof (induction xs)
  case Nil
  then show ?case by simp
next
  case (Cons a xs)
  show ?case
  proof (cases "a = b")
    case True
    with Cons.prems have "\<forall>x\<in>set xs. f x \<noteq> f b" by (auto simp: image_iff)
    then have "find (\<lambda>x. f x = f b \<and> P x) xs = None" by (auto simp: find_None_iff)
    with True show ?thesis by simp
  next
    case False
    with Cons.prems have "b \<in> set xs" "f a \<noteq> f b" "distinct (map f xs)" by (auto simp: image_iff)
    with Cons.IH show ?thesis by simp
  qed
qed








section \<open>Cancelling a booking\<close>



section \<open>Deleting an account\<close>

lemma deleteOne_by_key:
  "distinct (map f xs) \<Longrightarrow> deleteOne (\<lambda>x. f x = k) xs = filter (\<lambda>x. f x \<noteq> k) xs"
proof (induction xs)
  case Nil
  then show ?case by simp
next
  case (Cons a xs)
  show ?case
  proof (cases "f a = k")
    case True
    with Cons.prems have "\<forall>x\<in>set xs. f x \<noteq> k" by (auto simp: image_iff)
    then have "filter (\<lambda>x. f x \<noteq> k) xs = xs" by (simp add: filter_id_conv)
    with True show ?thesis by simp
  next
    case False
    with Cons show ?thesis by simp
  qed
qed

lemma countDocuments_pos: "0 < countDocuments P xs \<longleftrightarrow> (\<exists>x\<in>set xs. P x)"
  by (simp add: countDocuments_def filter_empty_conv)

lemma active_status_iff: "active_status s \<longleftrightarrow> s = Pending \<or> s = Confirmed"
  by (simp add: active_status_def)

lemma not_active_iff: "\<not> active_status s \<longleftrightarrow> s = Cancelled \<or> s = Completed"
  by (cases s) (simp_all add: active_status_def)

lemma delete_account_checked:
  assumes "findById uid d = Some u" "pw \<noteq> []" "bcrypt_compare e pw (password u)"
  shows "delete_account e uid pw d =
          (if \<exists>b\<in>set (bookings d). b_user b = uid \<and> active_status (b_status b)
           then (error_response 400
          ''Cannot delete account with active bookings. Please cancel or complete all bookings first.'', d)
           else (\<lparr>status_code = 200,
                  body = JObj [(''status'', JStr ''success''),
                               (''message'', JStr ''Account deleted successfully'')]\<rparr>,
                 \<lparr>users = deleteOne (\<lambda>x. user_id x = uid) (users d),
                  bookings = deleteMany (\<lambda>b. b_user b = uid) (bookings d)\<rparr>))"
  using assms countDocuments_pos[of "\<lambda>b. b_user b = uid \<and> active_status (b_status b)" "bookings d"]
  by (auto simp: delete_account_def check_def comparePassword_def select_plus_password_def Let_def)

text \<open>
  Claim C2. Take an account \<open>u\<close> of the store with identifier \<open>uid\<close> (the
  identifiers of the stored accounts are distinct) and a non-empty password that
  matches its hash. If some booking of the account is pending or confirmed,
  \<^verbatim>\<open>DELETE /users/account\<close> answers 400 and leaves the store as it was. If every
  booking of the account is cancelled or completed, it answers 200, and afterwards the
  store holds no account with this identifier and no booking of the account, and
  every other account and booking as before.
\<close>

theorem delete_account_active_bookings:
  assumes "distinct (map user_id (users d))"
    and "u \<in> set (users d)" and "user_id u = uid"
    and "pw \<noteq> []" and "bcrypt_compare e pw (password u)"
  shows "((\<exists>b\<in>set (bookings d). b_user b = uid \<and> (b_status b = Pending \<or> b_status b = Confirmed)) \<longrightarrow>
            delete_account e uid pw d
              = (error_response 400
          ''Cannot delete account with active bookings. Please cancel or complete all bookings first.'', d))
       \<and> ((\<forall>b\<in>set (bookings d). b_user b = uid \<longrightarrow> b_status b = Cancelled \<or> b_status b = Completed) \<longrightarrow>
            (\<exists>r d'. delete_account e uid pw d = (r, d')
               \<and> status_code r = 200
               \<and> findById uid d' = None
               \<and> users d' = filter (\<lambda>x. user_id x \<noteq> uid) (users d)
               \<and> bookings d' = filter (\<lambda>b. b_user b \<noteq> uid) (bookings d)))"
proof -
  have found: "findById uid d = Some u"
    using find_by_key[of user_id "users d" u "\<lambda>x. True"] assms(1,2,3)
    by (simp add: findById_def)
  note run = delete_account_checked[OF found assms(4,5)]
  have refused: "delete_account e uid pw d
              = (error_response 400
          ''Cannot delete account with active bookings. Please cancel or complete all bookings first.'', d)"
    if "\<exists>b\<in>set (bookings d). b_user b = uid \<and> (b_status b = Pending \<or> b_status b = Confirmed)"
    using that run by (simp add: active_status_iff)
  have deleted: "\<exists>r d'. delete_account e uid pw d = (r, d')
               \<and> status_code r = 200
               \<and> findById uid d' = None
               \<and> users d' = filter (\<lambda>x. user_id x \<noteq> uid) (users d)
               \<and> bookings d' = filter (\<lambda>b. b_user b \<noteq> uid) (bookings d)"
    if settled: "\<forall>b\<in>set (bookings d). b_user b = uid \<longrightarrow> b_status b = Cancelled \<or> b_status b = Completed"
  proof -
    have none: "\<not> (\<exists>b\<in>set (bookings d). b_user b = uid \<and> active_status (b_status b))"
      using settled by (auto simp: active_status_def)
    have gone: "find (\<lambda>x. user_id x = uid) (filter (\<lambda>x. user_id x \<noteq> uid) (users d)) = None"
      by (simp add: find_None_iff)
    show ?thesis
      using run none gone deleteOne_by_key[OF assms(1), of uid]
      by (simp add: findById_def deleteMany_def)
  qed
  show ?thesis using refused deleted by blast
qed

theorem delete_account_active_bookings_witness:
  "delete_account example_env (user_id alice) ''Secret1'' example_db
     = (error_response 400
          ''Cannot delete account with active bookings. Please cancel or complete all bookings first.'',
        example_db)
   \<and> (\<exists>r d'. delete_account example_env (user_id alice) ''Secret1'' settled_db = (r, d')
         \<and> status_code r = 200 \<and> findById (user_id alice) d' = None \<and> bookings d' = [])"
proof -
  have store: "distinct (map user_id (users example_db))" "alice \<in> set (users example_db)"
    "distinct (map user_id (users settled_db))" "alice \<in> set (users settled_db)"
    by (simp_all add: example_db_def settled_db_def)
  have pw: "''Secret1'' \<noteq> []" "bcrypt_compare example_env ''Secret1'' (password alice)"
    by (simp_all add: example_env_def alice_def)
  have active: "\<exists>b\<in>set (bookings example_db). b_user b = user_id alice
             \<and> (b_status b = Pending \<or> b_status b = Confirmed)"
    by (simp add: example_db_def booking1_def booking2_def alice_def)
  have settled: "\<forall>b\<in>set (bookings settled_db). b_user b = user_id alice
             \<longrightarrow> b_status b = Cancelled \<or> b_status b = Completed"
    by (simp add: settled_db_def booking1_def booking2_def alice_def)
  have none_left: "filter (\<lambda>b. b_user b \<noteq> user_id alice) (bookings settled_db) = []"
    by (simp add: settled_db_def booking1_def booking2_def alice_def)
  have refused: "delete_account example_env (user_id alice) ''Secret1'' example_db
     = (error_response 400
          ''Cannot delete account with active bookings. Please cancel or complete all bookings first.'',
        example_db)"
    using delete_account_active_bookings[OF store(1,2) refl pw] active by blast
  have deleted: "\<exists>r d'. delete_account example_env (user_id alice) ''Secret1'' settled_db = (r, d')
         \<and> status_code r = 200 \<and> findById (user_id alice) d' = None \<and> bookings d' = []"
    using delete_account_active_bookings[OF store(3,4) refl pw] settled none_left by fastforce
  show ?thesis using refused deleted by blast
qed

section \<open>Registration and login\<close>

text \<open>Rules that evaluate the character functions on a concrete string.\<close>

lemmas char_eval = isLower_def isUpper_def isDigit_def isHexDigit_def isSpace_def
  toUpperChar_def toLowerChar_def js_toUpperCase_def js_toLowerCase_def char_of_def bit_Suc_0_iff

lemma register_invalid:
  "registerValidation e b \<noteq> [] \<Longrightarrow>
   register e b d = (validation_response (registerValidation e b), d)"
  by (simp add: register_def Let_def)

lemma register_existing:
  assumes "registerValidation e b = []"
    and "find (\<lambda>u. email u = normalizeEmail e (reg_email b)) (users d) = Some existingUser"
  shows "register e b d = (error_response 400 ''User with this email already exists'', d)"
  using assms by (simp add: register_def Let_def)

text \<open>
  Claim C3, as amended. Take a registration request whose e-mail, as the validation
  chain normalises it, is the e-mail of a stored account. Then \<^verbatim>\<open>POST /auth/register\<close>
  answers 400 and the store is unchanged, so no second account is created. When the
  request passes the validation of its fields the answer is the conflict "User with
  this email already exists"; when it does not, the answer is the list of the rules
  it broke.
\<close>

theorem register_duplicate_email:
  assumes "\<exists>u\<in>set (users d). email u = normalizeEmail e (reg_email b)"
  shows "snd (register e b d) = d
       \<and> status_code (fst (register e b d)) = 400
       \<and> (registerValidation e b = [] \<longrightarrow>
            fst (register e b d) = error_response 400 ''User with this email already exists'')
       \<and> (registerValidation e b \<noteq> [] \<longrightarrow>
            fst (register e b d) = validation_response (registerValidation e b))"
proof (cases "registerValidation e b = []")
  case True
  from assms obtain x where "find (\<lambda>u. email u = normalizeEmail e (reg_email b)) (users d) = Some x"
    by (cases "find (\<lambda>u. email u = normalizeEmail e (reg_email b)) (users d)")
       (auto simp: find_None_iff)
  with True show ?thesis
    by (simp add: register_existing error_response_def)
next
  case False
  then show ?thesis
    by (simp add: register_invalid validation_response_def)
qed

theorem register_duplicate_email_witness:
  "register example_env
     \<lparr>reg_firstName = ''Bob'', reg_lastName = ''B'', reg_email = ''Alice@Example.com'',
      reg_password = ''Secret1'', reg_phone = None, reg_dateOfBirth = None\<rparr> example_db
   = (error_response 400 ''User with this email already exists'', example_db)"
proof -
  let ?b = "\<lparr>reg_firstName = ''Bob'', reg_lastName = ''B'', reg_email = ''Alice@Example.com'',
      reg_password = ''Secret1'', reg_phone = None, reg_dateOfBirth = None\<rparr>"
  have dup: "\<exists>u\<in>set (users example_db). email u = normalizeEmail example_env (reg_email ?b)"
    by (simp add: example_db_def alice_def example_env_def char_eval)
  have ok: "registerValidation example_env ?b = []"
    by (simp add: registerValidation_def check_def example_env_def password_pattern_def
        isLineTerminator_def char_eval)
  show ?thesis
    using register_duplicate_email[OF dup] ok by (simp add: prod_eq_iff)
qed

text \<open>
  The claim as first stated, a conflict for every request with a registered e-mail,
  fails on a request whose password breaks the rules: the validation answers first.
\<close>

theorem register_duplicate_email_counterexample:
  "alice \<in> set (users example_db)
   \<and> email alice = normalizeEmail example_env ''alice@example.com''
   \<and> register example_env
        \<lparr>reg_firstName = ''Bob'', reg_lastName = ''B'', reg_email = ''alice@example.com'',
         reg_password = ''abc'', reg_phone = None, reg_dateOfBirth = None\<rparr> example_db
      \<noteq> (error_response 400 ''User with this email already exists'', example_db)
   \<and> message_of (fst (register example_env
        \<lparr>reg_firstName = ''Bob'', reg_lastName = ''B'', reg_email = ''alice@example.com'',
         reg_password = ''abc'', reg_phone = None, reg_dateOfBirth = None\<rparr> example_db))
      = JStr ''Validation errors''"
  by (simp add: register_def registerValidation_def check_def example_env_def example_db_def
      alice_def password_pattern_def isLineTerminator_def char_eval
      validation_response_def error_response_def message_of_def
      Let_def)

lemma login_invalid:
  "loginValidation e b \<noteq> [] \<Longrightarrow> login e b d = validation_response (loginValidation e b)"
  by (simp add: login_def Let_def)






section \<open>Authentication\<close>




lemma authenticate_success:
  "authenticate_token h = Some t \<Longrightarrow> t \<noteq> [] \<Longrightarrow> verify_token e t = Some p \<Longrightarrow>
   isMongoId (jwt_userId p) \<Longrightarrow> findById (jwt_userId p) d = Some u \<Longrightarrow>
   authenticate e d h = Next (select_minus_password u)"
  by (simp add: authenticate_def Let_def)

lemma authenticate_Next_only:
  "authenticate e d h = Next a \<Longrightarrow>
   \<exists>t p u. authenticate_token h = Some t \<and> t \<noteq> [] \<and> verify_token e t = Some p
     \<and> isMongoId (jwt_userId p) \<and> findById (jwt_userId p) d = Some u
     \<and> a = select_minus_password u"
  by (auto simp: authenticate_def Let_def split: option.splits if_splits)

lemma toObject_unselected:
  "\<not> password_selected a \<Longrightarrow> ''password'' \<notin> fst ` set (toObject a)"
  by (auto simp: toObject_def Let_def opt_field_def split: option.splits)

lemma example_tokens:
  "authenticate_token \<lparr>authorization = None, cookie = None\<rparr> = None"
  "authenticate_token \<lparr>authorization = Some ''Bearer k:aaaaaaaaaaaaaaaaaaaaaaaa'', cookie = None\<rparr>
     = Some ''k:aaaaaaaaaaaaaaaaaaaaaaaa''"
  "authenticate_token \<lparr>authorization = None, cookie = Some ''token=k:aaaaaaaaaaaaaaaaaaaaaaaa''\<rparr>
     = Some ''k:aaaaaaaaaaaaaaaaaaaaaaaa''"
  "header_token \<lparr>authorization = None, cookie = Some ''token=k:aaaaaaaaaaaaaaaaaaaaaaaa''\<rparr> = None"
  by (simp_all add: authenticate_token_def header_token_def truthy_def js_startsWith_def
      js_index_def parse_cookies_def cookie_step_def js_trim_def isSpace_def Let_def)

lemma example_verify:
  "verify_token example_env ''k:aaaaaaaaaaaaaaaaaaaaaaaa''
     = Some \<lparr>jwt_userId = ''aaaaaaaaaaaaaaaaaaaaaaaa'', jwt_email = [], jwt_role = ''user''\<rparr>"
  by (simp add: verify_token_def example_env_def)

lemma example_account:
  "isMongoId ''aaaaaaaaaaaaaaaaaaaaaaaa''"
  "findById ''aaaaaaaaaaaaaaaaaaaaaaaa'' example_db = Some alice"
  by (simp_all add: isMongoId_def isHexDigit_def isDigit_def findById_def example_db_def alice_def)



text \<open>
  Optional authentication is mandatory authentication of the same request without
  its cookies, with every rejection turned into a call of the handler with no
  account.
\<close>

lemma header_token_no_cookie:
  "header_token (h\<lparr>cookie := None\<rparr>) = header_token h"
  "authenticate_token (h\<lparr>cookie := None\<rparr>) = header_token h"
  by (simp_all add: header_token_def authenticate_token_def truthy_def Let_def)

lemma optionalAuth_header_only:
  "optionalAuth e d h =
     (case authenticate e d (h\<lparr>cookie := None\<rparr>) of Next u \<Rightarrow> Some u | Respond r \<Rightarrow> None)"
  unfolding optionalAuth_def authenticate_def header_token_no_cookie Let_def
  by (simp split: option.splits)

text \<open>
  Claim C7 has optional authentication extract the token as mandatory
  authentication does. A request that carries a valid token in its \<^verbatim>\<open>Cookie\<close>
  header and none in \<^verbatim>\<open>Authorization\<close> shows the difference: \<^verbatim>\<open>authenticate\<close>
  attaches the account, \<^verbatim>\<open>optionalAuth\<close> calls the handler with none.
\<close>

theorem optionalAuth_cookie_token_ignored:
  "authenticate example_env example_db
     \<lparr>authorization = None, cookie = Some ''token=k:aaaaaaaaaaaaaaaaaaaaaaaa''\<rparr>
     = Next (select_minus_password alice)
   \<and> optionalAuth example_env example_db
     \<lparr>authorization = None, cookie = Some ''token=k:aaaaaaaaaaaaaaaaaaaaaaaa''\<rparr> = None"
proof -
  have "''k:aaaaaaaaaaaaaaaaaaaaaaaa'' \<noteq> []" by simp
  from authenticate_success[OF example_tokens(3) this example_verify] example_account
  show ?thesis by (simp add: optionalAuth_def example_tokens(4) Let_def)
qed

section \<open>Looking a booking up by its reference\<close>












section \<open>Pagination\<close>





lemma check_Nil: "check ok err = [] \<longleftrightarrow> ok"
  by (simp add: check_def)




lemma nearby_response:
  assumes "nearby_query_errors e q = []"
  shows "status_code (nearby_restaurants e q) = 200"
    and "data_field ''restaurants'' (nearby_restaurants e q)
           = JArr (map (\<lambda>(r, x). JObj (restaurant_fields r @ [(''distance'', JNum x)]))
                    (js_slice (nearbyRestaurants e q)
                       ((parseInt_or (nq_page q) 1 - 1) * parseInt_or (nq_limit q) 20)
                       (parseInt_or (nq_page q) 1 * parseInt_or (nq_limit q) 20)))"
    and "pagination_field ''totalPages'' (nearby_restaurants e q)
           = JNum (real_of_int (math_ceil_div (int (length (nearbyRestaurants e q)))
                                  (parseInt_or (nq_limit q) 20)))"
  using assms
  by (simp_all add: nearby_restaurants_def Let_def data_field_def pagination_field_def
      pagination_json_def)







section \<open>The proximity search\<close>

lemma calculateDistance_same: "calculateDistance a b a b = 0"
  by (simp add: calculateDistance_def atan2_def Let_def)

lemma within_radius_Some:
  "within_radius e q r = Some y \<longleftrightarrow>
     (\<exists>x R. distance_from e q r = Some x \<and> searchRadius e q = Some R \<and> x \<le> R \<and> y = (r, x))"
  by (auto simp: within_radius_def split: option.splits)

lemma set_map_filter_eq: "set (List.map_filter f xs) = {y. \<exists>x\<in>set xs. f x = Some y}"
  by (induction xs) (auto simp: split: option.splits)

lemma set_nearbyRestaurants:
  "set (nearbyRestaurants e q) =
     {(r, x). r \<in> set mockRestaurants \<and> distance_from e q r = Some x
        \<and> (\<exists>R. searchRadius e q = Some R \<and> x \<le> R) \<and> nearby_filter e q r}"
  by (auto simp: nearbyRestaurants_def set_map_filter_eq within_radius_Some)

lemma sorted_nearbyRestaurants: "sorted (map snd (nearbyRestaurants e q))"
  by (simp add: nearbyRestaurants_def sorted_sort_key)

lemma accepted_radius:
  assumes "nearby_query_errors e q = []" and "searchRadius e q = Some R"
  shows "1 / 10 \<le> R \<and> R \<le> 50"
proof (cases "nq_radius q")
  case None
  with assms(2) show ?thesis by (simp add: searchRadius_def)
next
  case (Some s)
  from assms(1) have "optional (\<lambda>r. isFloat e r (Some 0.1) (Some 50)) (nq_radius q)"
    by (simp add: nearby_query_errors_def check_Nil)
  with Some assms(2) show ?thesis
    by (auto simp: optional_def isFloat_def searchRadius_def split: option.splits)
qed


lemma distinct_map_filter_tagged:
  assumes "distinct xs" and "\<And>x y. f x = Some y \<Longrightarrow> fst y = x"
  shows "distinct (List.map_filter f xs)"
  using assms(1)
proof (induction xs)
  case Nil
  then show ?case by simp
next
  case (Cons a xs)
  show ?case
  proof (cases "f a")
    case None
    with Cons show ?thesis by simp
  next
    case (Some y)
    have "y \<notin> set (List.map_filter f xs)"
    proof
      assume "y \<in> set (List.map_filter f xs)"
      then obtain x where "x \<in> set xs" "f x = Some y" by (auto simp: set_map_filter_eq)
      with assms(2)[of x y] assms(2)[OF Some] Cons.prems show False by auto
    qed
    with Some Cons show ?thesis by simp
  qed
qed

lemma length_map_filter_le: "length (List.map_filter f xs) \<le> length xs"
  by (induction xs) (auto split: option.splits)

lemma distinct_mockRestaurants: "distinct mockRestaurants"
  by (simp add: mockRestaurants_def golden_spoon_def sakura_sushi_def petit_bistro_def)

lemma distinct_nearbyRestaurants: "distinct (nearbyRestaurants e q)"
proof -
  have "distinct (List.map_filter (within_radius e q) mockRestaurants)"
  proof (rule distinct_map_filter_tagged[OF distinct_mockRestaurants])
    show "fst y = x" if "within_radius e q x = Some y" for x y
      using that by (auto simp: within_radius_Some)
  qed
  then show ?thesis by (simp add: nearbyRestaurants_def)
qed

lemma length_nearbyRestaurants: "length (nearbyRestaurants e q) \<le> 3"
proof -
  have "length (nearbyRestaurants e q) \<le> length (List.map_filter (within_radius e q) mockRestaurants)"
    by (simp add: nearbyRestaurants_def)
  also have "\<dots> \<le> length mockRestaurants" by (rule length_map_filter_le)
  finally show ?thesis by (simp add: mockRestaurants_def)
qed

lemma js_slice_first_page: "length xs \<le> 20 \<Longrightarrow> js_slice xs 0 20 = xs"
  by (simp add: js_slice_def Let_def min_def)

lemma distance_from_same:
  assumes "parseFloat e (nq_lat q) = Some (lat (coordinates (location r)))"
    and "parseFloat e (nq_lng q) = Some (lng (coordinates (location r)))"
  shows "distance_from e q r = Some 0"
  using assms by (simp add: distance_from_def calculateDistance_same)

lemma example_nearby_query:
  "nearby_query_errors example_env
     \<lparr>nq_lat = ''34.0522'', nq_lng = ''-118.2437'', nq_radius = Some ''1'', nq_cuisine = None,
      nq_priceRange = pr, nq_rating = None, nq_page = None, nq_limit = None\<rparr> = []"
  "parseFloat example_env (nq_lat
     \<lparr>nq_lat = ''34.0522'', nq_lng = ''-118.2437'', nq_radius = Some ''1'', nq_cuisine = None,
      nq_priceRange = pr, nq_rating = None, nq_page = None, nq_limit = None\<rparr>)
     = Some (lat (coordinates (location sakura_sushi)))"
  "parseFloat example_env (nq_lng
     \<lparr>nq_lat = ''34.0522'', nq_lng = ''-118.2437'', nq_radius = Some ''1'', nq_cuisine = None,
      nq_priceRange = pr, nq_rating = None, nq_page = None, nq_limit = None\<rparr>)
     = Some (lng (coordinates (location sakura_sushi)))"
  "searchRadius example_env
     \<lparr>nq_lat = ''34.0522'', nq_lng = ''-118.2437'', nq_radius = Some ''1'', nq_cuisine = None,
      nq_priceRange = pr, nq_rating = None, nq_page = None, nq_limit = None\<rparr> = Some 1"
  by (simp_all add: nearby_query_errors_def check_def optional_def isFloat_def searchRadius_def
      example_env_def sakura_sushi_def)

lemma sakura_listed: "sakura_sushi \<in> set mockRestaurants"
  by (simp add: mockRestaurants_def)

text \<open>
  Claim C8, as amended. Take a proximity query that passes the validation, with
  coordinates that parse and radius \<open>R\<close> (the radius of the query, or 5 when it has
  none). Then \<open>R\<close> lies between 0.1 and 50, both included. The matches of the search
  are exactly the restaurants whose distance from the query point is at most \<open>R\<close>
  and that pass the optional filters on cuisine, price range and rating, each once
  and with that distance, nearest first. A restaurant at the coordinates of the query
  that passes the optional filters is among them, at distance 0. The response is a
  success and returns the requested page of the matches, all of them when the query
  names no page and no page size.
\<close>

theorem nearby_within_radius:
  assumes "nearby_query_errors e q = []"
    and "parseFloat e (nq_lat q) = Some userLat" and "parseFloat e (nq_lng q) = Some userLng"
    and "searchRadius e q = Some R"
  shows "1 / 10 \<le> R \<and> R \<le> 50
       \<and> set (nearbyRestaurants e q) =
           {(r, x). r \<in> set mockRestaurants
              \<and> x = calculateDistance userLat userLng
                      (lat (coordinates (location r))) (lng (coordinates (location r)))
              \<and> x \<le> R \<and> nearby_filter e q r}
       \<and> distinct (nearbyRestaurants e q)
       \<and> sorted (map snd (nearbyRestaurants e q))
       \<and> (\<forall>r\<in>set mockRestaurants.
             lat (coordinates (location r)) = userLat \<and> lng (coordinates (location r)) = userLng
             \<and> nearby_filter e q r \<longrightarrow> (r, 0) \<in> set (nearbyRestaurants e q))
       \<and> status_code (nearby_restaurants e q) = 200
       \<and> data_field ''restaurants'' (nearby_restaurants e q)
           = JArr (map (\<lambda>(r, x). JObj (restaurant_fields r @ [(''distance'', JNum x)]))
                    (js_slice (nearbyRestaurants e q)
                       ((parseInt_or (nq_page q) 1 - 1) * parseInt_or (nq_limit q) 20)
                       (parseInt_or (nq_page q) 1 * parseInt_or (nq_limit q) 20)))
       \<and> (nq_page q = None \<and> nq_limit q = None \<longrightarrow>
            data_field ''restaurants'' (nearby_restaurants e q)
              = JArr (map (\<lambda>(r, x). JObj (restaurant_fields r @ [(''distance'', JNum x)]))
                       (nearbyRestaurants e q)))"
proof -
  have radius: "1 / 10 \<le> R \<and> R \<le> 50"
    using accepted_radius[OF assms(1,4)] .
  have dist: "distance_from e q r = Some x \<longleftrightarrow>
      x = calculateDistance userLat userLng
            (lat (coordinates (location r))) (lng (coordinates (location r)))" for r x
    using assms(2,3) by (auto simp: distance_from_def)
  have members: "set (nearbyRestaurants e q) =
           {(r, x). r \<in> set mockRestaurants
              \<and> x = calculateDistance userLat userLng
                      (lat (coordinates (location r))) (lng (coordinates (location r)))
              \<and> x \<le> R \<and> nearby_filter e q r}"
    unfolding set_nearbyRestaurants using assms(4) by (auto simp: dist)
  have same: "(r, 0) \<in> set (nearbyRestaurants e q)"
    if "r \<in> set mockRestaurants"
      "lat (coordinates (location r)) = userLat \<and> lng (coordinates (location r)) = userLng
             \<and> nearby_filter e q r" for r
    using that radius unfolding members by (simp add: calculateDistance_same)
  have page: "data_field ''restaurants'' (nearby_restaurants e q)
           = JArr (map (\<lambda>(r, x). JObj (restaurant_fields r @ [(''distance'', JNum x)]))
                    (js_slice (nearbyRestaurants e q)
                       ((parseInt_or (nq_page q) 1 - 1) * parseInt_or (nq_limit q) 20)
                       (parseInt_or (nq_page q) 1 * parseInt_or (nq_limit q) 20)))"
    using nearby_response(2)[OF assms(1)] .
  have whole: "data_field ''restaurants'' (nearby_restaurants e q)
              = JArr (map (\<lambda>(r, x). JObj (restaurant_fields r @ [(''distance'', JNum x)]))
                       (nearbyRestaurants e q))"
    if "nq_page q = None \<and> nq_limit q = None"
  proof -
    have "length (nearbyRestaurants e q) \<le> 20"
      using length_nearbyRestaurants[of e q] by simp
    from js_slice_first_page[OF this] page that show ?thesis
      by (simp add: parseInt_or_def)
  qed
  show ?thesis
    using radius members distinct_nearbyRestaurants sorted_nearbyRestaurants same
      nearby_response(1)[OF assms(1)] page whole
    by blast
qed

theorem nearby_within_radius_witness:
  "(sakura_sushi, 0) \<in> set (nearbyRestaurants example_env
      \<lparr>nq_lat = ''34.0522'', nq_lng = ''-118.2437'', nq_radius = Some ''1'', nq_cuisine = None,
       nq_priceRange = None, nq_rating = None, nq_page = None, nq_limit = None\<rparr>)
   \<and> status_code (nearby_restaurants example_env
      \<lparr>nq_lat = ''34.0522'', nq_lng = ''-118.2437'', nq_radius = Some ''1'', nq_cuisine = None,
       nq_priceRange = None, nq_rating = None, nq_page = None, nq_limit = None\<rparr>) = 200"
proof -
  let ?q = "\<lparr>nq_lat = ''34.0522'', nq_lng = ''-118.2437'', nq_radius = Some ''1'',
       nq_cuisine = None, nq_priceRange = None, nq_rating = None, nq_page = None,
       nq_limit = None\<rparr>"
  note inst = nearby_within_radius[OF example_nearby_query(1) example_nearby_query(2)
      example_nearby_query(3) example_nearby_query(4), of None]
  have here: "lat (coordinates (location sakura_sushi)) = lat (coordinates (location sakura_sushi))
      \<and> lng (coordinates (location sakura_sushi)) = lng (coordinates (location sakura_sushi))
      \<and> nearby_filter example_env ?q sakura_sushi"
    by (simp add: nearby_filter_def matchesCuisine_def matchesPriceRange_def matchesRating_def)
  have "(sakura_sushi, 0) \<in> set (nearbyRestaurants example_env ?q)"
    using inst[THEN conjunct2, THEN conjunct2, THEN conjunct2, THEN conjunct2, THEN conjunct2,
        THEN conjunct1, rule_format, OF sakura_listed here] .
  moreover have "status_code (nearby_restaurants example_env ?q) = 200"
    using inst[THEN conjunct2, THEN conjunct2, THEN conjunct2, THEN conjunct2, THEN conjunct2,
        THEN conjunct2, THEN conjunct1] .
  ultimately show ?thesis by (rule conjI)
qed

text \<open>
  The claim as first stated, exactly the restaurants within the radius, fails on a
  query with an optional filter: a query at the coordinates of a restaurant, with
  radius 1 and a price range the restaurant does not have, returns no restaurant.
\<close>

theorem nearby_exactly_within_radius_counterexample:
  "nearby_query_errors example_env
      \<lparr>nq_lat = ''34.0522'', nq_lng = ''-118.2437'', nq_radius = Some ''1'', nq_cuisine = None,
       nq_priceRange = Some ''$'', nq_rating = None, nq_page = None, nq_limit = None\<rparr> = []
   \<and> sakura_sushi \<in> set mockRestaurants
   \<and> distance_from example_env
      \<lparr>nq_lat = ''34.0522'', nq_lng = ''-118.2437'', nq_radius = Some ''1'', nq_cuisine = None,
       nq_priceRange = Some ''$'', nq_rating = None, nq_page = None, nq_limit = None\<rparr>
      sakura_sushi = Some 0
   \<and> searchRadius example_env
      \<lparr>nq_lat = ''34.0522'', nq_lng = ''-118.2437'', nq_radius = Some ''1'', nq_cuisine = None,
       nq_priceRange = Some ''$'', nq_rating = None, nq_page = None, nq_limit = None\<rparr> = Some 1
   \<and> data_field ''restaurants'' (nearby_restaurants example_env
      \<lparr>nq_lat = ''34.0522'', nq_lng = ''-118.2437'', nq_radius = Some ''1'', nq_cuisine = None,
       nq_priceRange = Some ''$'', nq_rating = None, nq_page = None, nq_limit = None\<rparr>) = JArr []"
proof -
  let ?q = "\<lparr>nq_lat = ''34.0522'', nq_lng = ''-118.2437'', nq_radius = Some ''1'',
       nq_cuisine = None, nq_priceRange = Some ''$'', nq_rating = None, nq_page = None,
       nq_limit = None\<rparr>"
  have dist: "distance_from example_env ?q sakura_sushi = Some 0"
    using example_nearby_query(2,3)[of "Some ''$''"] by (rule distance_from_same)
  have "\<not> nearby_filter example_env ?q r" if "r \<in> set mockRestaurants" for r
    using that
    by (auto simp: nearby_filter_def matchesPriceRange_def mockRestaurants_def golden_spoon_def
        sakura_sushi_def petit_bistro_def)
  then have "set (nearbyRestaurants example_env ?q) = {}"
    unfolding set_nearbyRestaurants by auto
  then have none: "nearbyRestaurants example_env ?q = []" by simp
  have empty: "data_field ''restaurants'' (nearby_restaurants example_env ?q) = JArr []"
    using nearby_response(2)[OF example_nearby_query(1), of "Some ''$''"] none
    by (simp add: js_slice_def)
  show ?thesis
    using example_nearby_query(1)[of "Some ''$''"] sakura_listed dist
      example_nearby_query(4)[of "Some ''$''"] empty
    by (intro conjI)
qed

section \<open>The password in what is returned\<close>

lemma has_key_JObj: "has_key k (JObj kvs) \<longleftrightarrow> (\<exists>kv\<in>set kvs. fst kv = k \<or> has_key k (snd kv))"
  by (simp add: list_ex_iff)

lemma passport_json_no_password: "\<not> has_key ''password'' (passport_json p)"
  by (simp add: passport_json_def)

lemma preferences_json_no_password: "\<not> has_key ''password'' (preferences_json p)"
  by (simp add: preferences_json_def opt_field_def split: option.splits)

lemma toObject_values:
  "kv \<in> set (toObject a) \<Longrightarrow> \<not> has_key ''password'' (snd kv)"
  by (auto simp: toObject_def Let_def opt_field_def passport_json_no_password
      preferences_json_no_password split: option.splits if_splits)

lemma toJSON_no_password: "\<not> has_key ''password'' (toJSON a)"
  using toObject_values[of _ a]
  by (force simp: toJSON_def list_ex_iff js_delete_def)

lemma toObject_no_password:
  "\<not> password_selected a \<Longrightarrow> \<not> has_key ''password'' (JObj (toObject a))"
  using toObject_unselected[of a] toObject_values[of _ a]
  by (force simp: list_ex_iff image_iff)

lemma error_no_password: "\<not> has_key ''password'' (body (error_response c m))"
  by (simp add: error_response_def)

lemma check_no_password:
  "\<not> list_ex (has_key ''password'') (check ok (field_error l p v m))"
  by (simp add: check_def field_error_def)

lemma validation_no_password:
  "\<not> list_ex (has_key ''password'') errors \<Longrightarrow>
   \<not> has_key ''password'' (body (validation_response errors))"
  by (simp add: validation_response_def)

lemma registerValidation_no_password:
  "\<not> list_ex (has_key ''password'') (registerValidation e b)"
  by (simp add: registerValidation_def check_no_password)

lemma loginValidation_no_password:
  "\<not> list_ex (has_key ''password'') (loginValidation e b)"
  by (simp add: loginValidation_def check_no_password)

lemma register_no_password: "\<not> has_key ''password'' (body (fst (register e b d)))"
  by (simp add: register_def Let_def error_no_password validation_no_password
      registerValidation_no_password toJSON_no_password split: option.splits prod.splits)

lemma login_no_password: "\<not> has_key ''password'' (body (login e b d))"
  by (simp add: login_def Let_def error_no_password validation_no_password
      loginValidation_no_password toJSON_no_password split: option.splits)

lemma get_me_no_password: "\<not> has_key ''password'' (body (get_me a))"
  by (simp add: get_me_def toJSON_no_password)

lemma auth_update_profile_no_password:
  "\<not> has_key ''password'' (body (fst (auth_update_profile e a b d)))"
  by (simp add: auth_update_profile_def Let_def error_no_password validation_no_password
      check_no_password toJSON_no_password split: option.splits prod.splits)

lemma users_update_profile_no_password:
  "\<not> has_key ''password'' (body (fst (users_update_profile e a b d)))"
  by (simp add: users_update_profile_def Let_def error_no_password validation_no_password
      check_no_password toJSON_no_password split: option.splits prod.splits)

lemma users_update_preferences_no_password:
  "\<not> has_key ''password'' (body (fst (users_update_preferences e a b d)))"
  by (simp add: users_update_preferences_def Let_def error_no_password validation_no_password
      check_no_password preferences_json_no_password split: option.splits prod.splits)

lemma users_update_passport_no_password:
  "\<not> has_key ''password'' (body (fst (users_update_passport e a b d)))"
  by (simp add: users_update_passport_def Let_def error_no_password validation_no_password
      check_no_password passport_json_no_password opt_field_def
      split: option.splits prod.splits)

lemma list_users_no_password: "\<not> has_key ''password'' (body (list_users qp ql d))"
  by (simp add: list_users_def Let_def error_no_password toJSON_no_password
      pagination_json_def list_ex_iff)

lemma dashboard_user: 
  "json_field ''user'' (json_field ''dashboard'' (json_field ''data'' (body (get_dashboard e a d))))
     = toJSON a"
  by (simp add: get_dashboard_def Let_def)

lemma populate_user_no_password: "\<not> has_key ''password'' (populate_user d i)"
  by (simp add: populate_user_def split: option.splits)

lemma example_login:
  "login example_env \<lparr>login_email = ''alice@example.com'', login_password = ''Secret1''\<rparr>
     example_db
   = \<lparr>status_code = 200,
      body = JObj [(''status'', JStr ''success''), (''message'', JStr ''Login successful''),
                   (''data'', JObj [(''user'', toJSON (select_plus_password alice)),
                                    (''token'', JStr ''k:aaaaaaaaaaaaaaaaaaaaaaaa'')])]\<rparr>"
  by (simp add: login_def loginValidation_def check_def example_env_def example_db_def alice_def
      comparePassword_def select_plus_password_def getSignedJwtToken_def Let_def char_eval)

text \<open>
  Claim C5. No object in the response of an operation that returns an account has a
  field \<^verbatim>\<open>password\<close>: registration, login, the profile of the caller, the two
  profile updates, the update of the preferences and of the passport, and the listing
  of the accounts, in success and in failure; likewise the account of the dashboard
  and the owner that is filled into a booking. The document that mandatory or optional
  authentication attaches to the request holds no password. All of this is for every
  store, so also for the store an update has just written.
\<close>

theorem password_never_serialized:
  "\<not> has_key ''password'' (body (fst (register e rb d)))
   \<and> \<not> has_key ''password'' (body (login e lb d))
   \<and> \<not> has_key ''password'' (body (get_me req_user))
   \<and> \<not> has_key ''password'' (body (fst (auth_update_profile e req_user pb d)))
   \<and> \<not> has_key ''password'' (body (fst (users_update_profile e req_user pb d)))
   \<and> \<not> has_key ''password'' (body (fst (users_update_preferences e req_user prefs d)))
   \<and> \<not> has_key ''password'' (body (fst (users_update_passport e req_user ppb d)))
   \<and> \<not> has_key ''password'' (body (list_users q_page q_limit d))
   \<and> \<not> has_key ''password''
         (json_field ''user'' (json_field ''dashboard'' (json_field ''data''
            (body (get_dashboard e req_user d)))))
   \<and> \<not> has_key ''password'' (populate_user d i)
   \<and> (\<forall>a. authenticate e d h = Next a \<longrightarrow> \<not> has_key ''password'' (JObj (toObject a)))
   \<and> (\<forall>a. optionalAuth e d h = Some a \<longrightarrow> \<not> has_key ''password'' (JObj (toObject a)))"
proof (intro conjI allI impI)
  show "\<not> has_key ''password'' (body (fst (register e rb d)))"
    by (rule register_no_password)
  show "\<not> has_key ''password'' (body (login e lb d))"
    by (rule login_no_password)
  show "\<not> has_key ''password'' (body (get_me req_user))"
    by (rule get_me_no_password)
  show "\<not> has_key ''password'' (body (fst (auth_update_profile e req_user pb d)))"
    by (rule auth_update_profile_no_password)
  show "\<not> has_key ''password'' (body (fst (users_update_profile e req_user pb d)))"
    by (rule users_update_profile_no_password)
  show "\<not> has_key ''password'' (body (fst (users_update_preferences e req_user prefs d)))"
    by (rule users_update_preferences_no_password)
  show "\<not> has_key ''password'' (body (fst (users_update_passport e req_user ppb d)))"
    by (rule users_update_passport_no_password)
  show "\<not> has_key ''password'' (body (list_users q_page q_limit d))"
    by (rule list_users_no_password)
  show "\<not> has_key ''password''
         (json_field ''user'' (json_field ''dashboard'' (json_field ''data''
            (body (get_dashboard e req_user d)))))"
    by (simp only: dashboard_user toJSON_no_password not_False_eq_True)
  show "\<not> has_key ''password'' (populate_user d i)"
    by (rule populate_user_no_password)
  show "\<not> has_key ''password'' (JObj (toObject a))" if "authenticate e d h = Next a" for a
  proof -
    from authenticate_Next_only[OF that] have "\<not> password_selected a"
      by (auto simp: select_minus_password_def)
    then show ?thesis by (rule toObject_no_password)
  qed
  show "\<not> has_key ''password'' (JObj (toObject a))" if "optionalAuth e d h = Some a" for a
  proof -
    from that have "authenticate e d (h\<lparr>cookie := None\<rparr>) = Next a"
      by (simp add: optionalAuth_header_only split: middleware_result.splits)
    from authenticate_Next_only[OF this] have "\<not> password_selected a"
      by (auto simp: select_minus_password_def)
    then show ?thesis by (rule toObject_no_password)
  qed
qed

theorem password_never_serialized_witness:
  "has_key ''password'' (JObj (toObject (select_plus_password alice)))
   \<and> has_key ''email'' (body (login example_env
        \<lparr>login_email = ''alice@example.com'', login_password = ''Secret1''\<rparr> example_db))
   \<and> \<not> has_key ''password'' (body (login example_env
        \<lparr>login_email = ''alice@example.com'', login_password = ''Secret1''\<rparr> example_db))
   \<and> authenticate example_env example_db
        \<lparr>authorization = Some ''Bearer k:aaaaaaaaaaaaaaaaaaaaaaaa'', cookie = None\<rparr>
       = Next (select_minus_password alice)
   \<and> \<not> has_key ''password'' (JObj (toObject (select_minus_password alice)))"
proof -
  let ?h = "\<lparr>authorization = Some ''Bearer k:aaaaaaaaaaaaaaaaaaaaaaaa'', cookie = None\<rparr>"
  let ?lb = "\<lparr>login_email = ''alice@example.com'', login_password = ''Secret1''\<rparr>"
  note inst = password_never_serialized[of example_env _ example_db ?lb _ _ _ _ _ _ _ ?h]
  have stored: "has_key ''password'' (JObj (toObject (select_plus_password alice)))"
    by (simp add: toObject_def select_plus_password_def Let_def)
  have email: "has_key ''email'' (body (login example_env ?lb example_db))"
    by (simp add: example_login toJSON_def toObject_def js_delete_def select_plus_password_def
        Let_def)
  have login: "\<not> has_key ''password'' (body (login example_env ?lb example_db))"
    using inst[THEN conjunct2, THEN conjunct1] .
  have "''k:aaaaaaaaaaaaaaaaaaaaaaaa'' \<noteq> []" by simp
  from authenticate_success[OF example_tokens(2) this example_verify] example_account
  have attached: "authenticate example_env example_db ?h = Next (select_minus_password alice)"
    by simp
  have attached_doc: "\<not> has_key ''password'' (JObj (toObject (select_minus_password alice)))"
    using inst[THEN conjunct2, THEN conjunct2, THEN conjunct2, THEN conjunct2, THEN conjunct2,
        THEN conjunct2, THEN conjunct2, THEN conjunct2, THEN conjunct2, THEN conjunct2,
        THEN conjunct1, rule_format, OF attached] .
  show ?thesis using stored email login attached attached_doc by (intro conjI)
qed

end
